theory Spec2Isabelle
  imports Main
begin

section \<open>Constants and paths\<close>

text \<open>
  The module-level constants of \<^verbatim>\<open>auto-installer.py\<close>. The home directory comes from
  the environment (\<^verbatim>\<open>os.path.expanduser("~")\<close>) and is a field of the world below.
\<close>

definition CERT_NAME :: string where
  "CERT_NAME = ''xiaobai-debug''"

definition PROFILE_NAME :: string where
  "PROFILE_NAME = ''xiaobai-debug''"

definition DEFAULT_STOREPASS :: string where
  "DEFAULT_STOREPASS = ''xiaobai123''"

definition DEFAULT_KEYALIAS :: string where
  "DEFAULT_KEYALIAS = ''xiaobai''"

text \<open>\<^verbatim>\<open>os.path.join\<close> on POSIX, for two components.\<close>

definition path_join :: "string \<Rightarrow> string \<Rightarrow> string" where
  "path_join a b =
     (if b \<noteq> [] \<and> hd b = CHR ''/'' then b
      else if a = [] \<or> last a = CHR ''/'' then a @ b
      else a @ ''/'' @ b)"

text \<open>\<^verbatim>\<open>os.path.basename\<close>: what follows the last slash.\<close>

definition basename :: "string \<Rightarrow> string" where
  "basename p = rev (takeWhile (\<lambda>c. c \<noteq> CHR ''/'') (rev p))"

section \<open>Data of the remote API\<close>

text \<open>
  A decoded response document is modelled by the fields the script reads from it. A field
  is \<open>None\<close> when the key is absent; a present field has the type the API gives it
  (strings for names, identifiers and URLs, integers for \<^verbatim>\<open>certType\<close> and
  \<^verbatim>\<open>ret.code\<close>, arrays of objects for the listings).
\<close>

record cert_entry =
  ce_id :: "string option"
  ce_certObjectId :: "string option"
  ce_certName :: "string option"
  ce_certType :: "int option"

record device_entry =
  de_id :: "string option"
  de_udid :: "string option"

record jdoc =
  ret_code :: "int option"
  ret_msg :: "string option"
  certList :: "cert_entry list option"
  harmonyCert_id :: "string option"
  harmonyCert_certObjectId :: "string option"
  urlsInfo :: "string option list option"
  device_list :: "device_entry list option"
  provisionFileUrl :: "string option"
  teams :: "string option list option"
  nickName :: "string option"

text \<open>
  What the network gives back to one call: no answer at all
  (\<^verbatim>\<open>requests.RequestException\<close>), or a status code with a body; the body is
  \<open>None\<close> when it is not JSON.
\<close>

datatype reply = Unreachable | Reply int "jdoc option"

datatype request =
    CertListReq
  | CertAddReq string int string
  | CertDeleteReq "string list"
  | ReapplyReq string
  | DeviceListReq
  | DeviceAddReq string string
  | ProvisionAddReq string "string list" "string list" string
  | UserTeamListReq

datatype event = Http request | Download string string | Login

text \<open>Python truthiness of an optional string (\<^verbatim>\<open>None\<close> and \<^verbatim>\<open>""\<close> are false).\<close>

definition truthy :: "string option \<Rightarrow> bool" where
  "truthy v = (case v of None \<Rightarrow> False | Some s \<Rightarrow> s \<noteq> [])"

definition get_or :: "'a \<Rightarrow> 'a option \<Rightarrow> 'a" where
  "get_or d v = (case v of None \<Rightarrow> d | Some x \<Rightarrow> x)"

section \<open>The callback server's requests\<close>

text \<open>
  One POST that reaches the local callback server, with what the two token-exchange calls
  made on its behalf answer: \<open>cb_temptoken_check\<close> is the text of
  \<^verbatim>\<open>temptoken/check\<close> (\<open>None\<close> when the call raises), \<open>cb_jwtoken_check\<close>
  the outcome of \<^verbatim>\<open>jwToken/check\<close>.
\<close>

datatype jw_reply = JwFailed | JwNotJson | JwJson "(string \<times> string) list option"

record callback =
  cb_path :: string
  cb_tempToken :: "string list"
  cb_temptoken_check :: "string option"
  cb_jwtoken_check :: jw_reply

section \<open>The world the script runs in\<close>

type_synonym config = "string \<rightharpoonup> string"

text \<open>
  A path of the disk holds nothing, a file that does not parse as a JSON object
  (\<open>Blob\<close>: an empty or half-written file, a certificate, a profile), or a JSON
  document of string values.
\<close>

datatype fstate = Missing | Blob | Doc config

type_synonym disk = "string \<Rightarrow> fstate"

record world =
  DEBUG :: bool
  HOME_DIR :: string
  DEVICE_IP :: string
  fs :: disk
  cfg_writable :: bool
  remote :: "reply list"
  keytool_ok :: bool
  csr_text :: string
  hdc_connect_ok :: bool
  hdc_udid :: "string option"
  port_free :: bool
  token_write_ok :: bool
  logins :: "callback list list"
  trace :: "event list"

definition CONFIG_DIR :: "world \<Rightarrow> string" where
  "CONFIG_DIR w = path_join (path_join (HOME_DIR w) ''.autoPublisher'') ''config''"

definition STORE_DIR :: "world \<Rightarrow> string" where
  "STORE_DIR w = path_join (CONFIG_DIR w) ''store''"

definition ECO_CONFIG_FILE :: "world \<Rightarrow> string" where
  "ECO_CONFIG_FILE w = path_join (CONFIG_DIR w) ''eco_config.json''"

definition isfile :: "world \<Rightarrow> string \<Rightarrow> bool" where
  "isfile w p = (case fs w p of Missing \<Rightarrow> False | _ \<Rightarrow> True)"

section \<open>Outcomes\<close>

text \<open>
  Every \<^verbatim>\<open>sys.exit(1)\<close> of the modelled functions is an \<open>error\<close>. A function
  returns a value, exits the process, or never returns (\<open>Hangs\<close>: the wait for the
  callback server's thread has no timeout).
\<close>

datatype error =
    ClearConfigFailed
  | PortInUse
  | NoTokenFile
  | TokenFieldsMissing
  | ListAfterLoginFailed
  | ListFailed
  | NotJson
  | ReapplyFailed int
  | ReapplyMalformed
  | ReapplyEmptyUrl
  | DownloadFailed
  | KeystoreFailed
  | CsrFailed
  | CsrMissing
  | CreateFailed
  | Rejected string
  | CreateIncomplete
  | NoDeviceIp
  | ConnectFailed
  | UdidFailed
  | ListAfterRegisterFailed
  | RegisterNotListed
  | DeviceIdMissing
  | NoDebugCertId
  | NoTeams

datatype 'a outcome = Returns 'a | Exits error | Hangs

definition and_then ::
  "(world \<Rightarrow> 'a outcome \<times> world) \<Rightarrow> ('a \<Rightarrow> world \<Rightarrow> 'b outcome \<times> world) \<Rightarrow>
   world \<Rightarrow> 'b outcome \<times> world" where
  "and_then m f w =
     (case m w of
        (Returns a, w') \<Rightarrow> f a w'
      | (Exits e, w') \<Rightarrow> (Exits e, w')
      | (Hangs, w') \<Rightarrow> (Hangs, w'))"

section \<open>ConfigStore: reading and writing \<^verbatim>\<open>eco_config.json\<close>\<close>

text \<open>
  \<^verbatim>\<open>read_eco_config\<close>: the empty dictionary when the file is missing or does not
  load, the document otherwise.
\<close>

definition read_eco_config :: "world \<Rightarrow> config" where
  "read_eco_config w =
     (case fs w (ECO_CONFIG_FILE w) of
        Missing \<Rightarrow> Map.empty
      | Blob \<Rightarrow> Map.empty
      | Doc d \<Rightarrow> d)"

text \<open>
  The file operations of \<^verbatim>\<open>write_eco_config\<close>, in order:
  \<^verbatim>\<open>open(ECO_CONFIG_FILE, "w")\<close> truncates the file in place, then
  \<^verbatim>\<open>json.dump\<close> writes the document into it. \<open>Rename\<close> is the operation a
  write through a temporary file would end with; the script has none.
\<close>

datatype fsop = OpenTruncate string | Dump string config | Rename string string

fun exec_op :: "disk \<Rightarrow> fsop \<Rightarrow> disk" where
  "exec_op d (OpenTruncate p) = d(p := Blob)"
| "exec_op d (Dump p c) = d(p := Doc c)"
| "exec_op d (Rename a b) = (d(b := d a))(a := Missing)"

definition write_eco_config_ops :: "world \<Rightarrow> config \<Rightarrow> fsop list" where
  "write_eco_config_ops w data =
     [OpenTruncate (ECO_CONFIG_FILE w), Dump (ECO_CONFIG_FILE w) data]"

text \<open>The disk after a crash that lets only the first \<open>n\<close> operations through.\<close>

definition crash_after :: "nat \<Rightarrow> fsop list \<Rightarrow> disk \<Rightarrow> disk" where
  "crash_after n ops d = foldl exec_op d (take n ops)"

definition is_rename :: "fsop \<Rightarrow> bool" where
  "is_rename op = (case op of Rename a b \<Rightarrow> True | _ \<Rightarrow> False)"

definition op_target :: "fsop \<Rightarrow> string" where
  "op_target op = (case op of OpenTruncate p \<Rightarrow> p | Dump p c \<Rightarrow> p | Rename a b \<Rightarrow> b)"

text \<open>
  \<^verbatim>\<open>write_eco_config\<close>: when the file cannot be opened for writing the exception is
  caught and only reported, and the disk is unchanged.
\<close>

definition write_eco_config :: "config \<Rightarrow> world \<Rightarrow> world" where
  "write_eco_config data w =
     (if cfg_writable w then w\<lparr>fs := foldl exec_op (fs w) (write_eco_config_ops w data)\<rparr>
      else w)"

definition get_config_value :: "world \<Rightarrow> string \<Rightarrow> string" where
  "get_config_value w key = get_or [] (read_eco_config w key)"

text \<open>
  \<^verbatim>\<open>update_config(**kwargs)\<close>: the keyword arguments are a dictionary; the loop
  \<^verbatim>\<open>config[k] = v\<close> over its items overrides the document read from the file with
  it, and one write follows.
\<close>

definition update_config :: "config \<Rightarrow> world \<Rightarrow> world" where
  "update_config kwargs w = write_eco_config (read_eco_config w ++ kwargs) w"

text \<open>
  \<^verbatim>\<open>clear_eco_config_file\<close> writes the empty document, and exits when that fails.
\<close>

definition clear_eco_config_file :: "world \<Rightarrow> unit outcome \<times> world" where
  "clear_eco_config_file w =
     (if cfg_writable w
      then (Returns (), w\<lparr>fs := foldl exec_op (fs w) (write_eco_config_ops w Map.empty)\<rparr>)
      else (Exits ClearConfigFailed, w))"

text \<open>
  \<^verbatim>\<open>initialize_eco_config\<close>. The second probe asks for the key \<^verbatim>\<open>keyAlias\<close>;
  the key it then writes is \<^verbatim>\<open>keyalias\<close>.
\<close>

definition initialize_eco_config :: "world \<Rightarrow> unit outcome \<times> world" where
  "initialize_eco_config w0 =
     and_then (\<lambda>w. if DEBUG w then clear_eco_config_file w else (Returns (), w))
       (\<lambda>_ w.
          if \<not> isfile w (ECO_CONFIG_FILE w)
          then (Returns (),
                write_eco_config
                  [''storepass'' \<mapsto> DEFAULT_STOREPASS, ''keyalias'' \<mapsto> DEFAULT_KEYALIAS] w)
          else
            let storepass = get_config_value w ''storepass'';
                w1 = (if storepass = []
                      then update_config [''storepass'' \<mapsto> DEFAULT_STOREPASS] w else w);
                keyalias = get_config_value w1 ''keyAlias''
            in (Returns (),
                if keyalias = []
                then update_config [''keyalias'' \<mapsto> DEFAULT_KEYALIAS] w1 else w1))
       w0"

section \<open>CallbackServer: the handler and the serving loop\<close>

text \<open>
  The state of one server instance: whether \<^verbatim>\<open>server.shutdown\<close> has been called,
  the content of the one-shot token file (\<open>None\<close> while it does not exist), and the
  status codes it has answered with, oldest first.
\<close>

record server =
  sv_shutdown :: bool
  sv_token_file :: "(string \<times> string) list option"
  sv_replies :: "int list"

definition idle_server :: server where
  "idle_server = \<lparr> sv_shutdown = False, sv_token_file = None, sv_replies = [] \<rparr>"

definition send_response :: "int \<Rightarrow> server \<Rightarrow> server" where
  "send_response code s = s\<lparr>sv_replies := sv_replies s @ [code]\<rparr>"

text \<open>
  \<^verbatim>\<open>OAuthHandler.do_POST\<close>. \<open>token_ok\<close> says whether the token file can be
  written (the handler catches and logs a failure there, and goes on). Only the last
  branch reaches \<^verbatim>\<open>server.shutdown\<close>; every other branch returns after sending
  its response.
\<close>

definition do_POST :: "bool \<Rightarrow> callback \<Rightarrow> server \<Rightarrow> server" where
  "do_POST token_ok cb s =
     (if cb_path cb \<noteq> ''/callback'' then send_response 404 s
      else
        case cb_tempToken cb of
          [] \<Rightarrow> send_response 400 s
        | temp_token # _ \<Rightarrow>
            (case cb_temptoken_check cb of
               None \<Rightarrow> send_response 400 s
             | Some jwt_token \<Rightarrow>
                 (case cb_jwtoken_check cb of
                    JwFailed \<Rightarrow> send_response 400 s
                  | JwNotJson \<Rightarrow> send_response 400 s
                  | JwJson ui \<Rightarrow>
                      let user_info = get_or [] ui in
                      if user_info = [] then send_response 400 s
                      else
                        let s1 = (if token_ok then s\<lparr>sv_token_file := Some user_info\<rparr> else s);
                            s2 = send_response 200 s1
                        in s2\<lparr>sv_shutdown := True\<rparr>)))"

text \<open>
  \<^verbatim>\<open>serve_forever\<close> on the requests that will arrive, in order: it handles one
  request after the other until a handler has asked for the shutdown, and returns the
  server with the requests it never served. When the requests run out first it waits for
  a connection that never comes: \<open>None\<close>.
\<close>

fun serve_forever :: "bool \<Rightarrow> callback list \<Rightarrow> server \<Rightarrow> (server \<times> callback list) option" where
  "serve_forever token_ok [] s = None"
| "serve_forever token_ok (cb # cbs) s =
     (let s' = do_POST token_ok cb s
      in if sv_shutdown s' then Some (s', cbs) else serve_forever token_ok cbs s')"

section \<open>AuthSession: \<^verbatim>\<open>login_eco\<close>\<close>

text \<open>
  The end of \<^verbatim>\<open>login_eco\<close>, from the payload read from the token file: the three
  fields it extracts, the check, and the write of the session into the config.
\<close>

definition tokens_get :: "(string \<times> string) list \<Rightarrow> string \<Rightarrow> string" where
  "tokens_get tokens key = get_or [] (map_of tokens key)"

definition store_session :: "(string \<times> string) list \<Rightarrow> world \<Rightarrow> unit outcome \<times> world" where
  "store_session tokens w =
     (let oauth2_token = tokens_get tokens ''accessToken'';
          user_id = tokens_get tokens ''userId'';
          nick_name = tokens_get tokens ''nickName''
      in if oauth2_token = [] \<or> user_id = [] then (Exits TokenFieldsMissing, w)
         else (Returns (),
               update_config
                 [''oauth2_token'' \<mapsto> oauth2_token, ''team_id'' \<mapsto> user_id,
                  ''uid'' \<mapsto> user_id, ''nick_name'' \<mapsto> nick_name] w))"

text \<open>
  \<^verbatim>\<open>login_eco\<close>: start the server (exit when the port is taken), wait for its
  thread, read the token file and remove it, store the session. Each login cycle takes the
  next list of incoming callbacks from \<open>logins\<close>; with none left nothing ever arrives.
  The token file is written by \<^verbatim>\<open>json.dump\<close>, so reading it back does not fail.
\<close>

definition login_eco :: "world \<Rightarrow> unit outcome \<times> world" where
  "login_eco w0 =
     (let w = w0\<lparr>trace := trace w0 @ [Login]\<rparr> in
      if \<not> port_free w then (Exits PortInUse, w)
      else
        let cbs = (case logins w of [] \<Rightarrow> [] | c # rest \<Rightarrow> c);
            w1 = w\<lparr>logins := tl (logins w)\<rparr>
        in case serve_forever (token_write_ok w) cbs idle_server of
             None \<Rightarrow> (Hangs, w1)
           | Some (sv, unserved) \<Rightarrow>
               (case sv_token_file sv of
                  None \<Rightarrow> (Exits NoTokenFile, w1)
                | Some tokens \<Rightarrow> store_session tokens w1))"

section \<open>RemoteClient: \<^verbatim>\<open>http_request\<close> and \<^verbatim>\<open>download_file\<close>\<close>

text \<open>
  \<^verbatim>\<open>http_request\<close> issues one call and returns body and status code as they come,
  \<^verbatim>\<open>(None, 0)\<close> when the request raises. The answers of the network are taken in
  order from \<open>remote\<close>; when none is left the network does not answer. Every call is
  recorded in \<open>trace\<close>.
\<close>

definition http_request :: "request \<Rightarrow> world \<Rightarrow> (jdoc option \<times> int) \<times> world" where
  "http_request rq w =
     (let w1 = w\<lparr>trace := trace w @ [Http rq]\<rparr> in
      case remote w1 of
        [] \<Rightarrow> ((None, 0), w1)
      | Unreachable # rest \<Rightarrow> ((None, 0), w1\<lparr>remote := rest\<rparr>)
      | Reply code body # rest \<Rightarrow> ((body, code), w1\<lparr>remote := rest\<rparr>))"

text \<open>
  \<^verbatim>\<open>download_file\<close>: \<^verbatim>\<open>raise_for_status\<close> raises on a status from 400 to 599;
  the file is written only after it.
\<close>

definition download_file :: "string \<Rightarrow> string \<Rightarrow> world \<Rightarrow> string outcome \<times> world" where
  "download_file file_url file_name w =
     (let local_path = path_join (CONFIG_DIR w) file_name;
          w1 = w\<lparr>trace := trace w @ [Download file_url local_path]\<rparr>
      in case remote w1 of
           [] \<Rightarrow> (Exits DownloadFailed, w1)
         | Unreachable # rest \<Rightarrow> (Exits DownloadFailed, w1\<lparr>remote := rest\<rparr>)
         | Reply code body # rest \<Rightarrow>
             if 400 \<le> code \<and> code < 600 then (Exits DownloadFailed, w1\<lparr>remote := rest\<rparr>)
             else (Returns local_path,
                   w1\<lparr>remote := rest, fs := (fs w1)(local_path := Blob)\<rparr>))"

section \<open>Reconciler: the listing step\<close>

text \<open>
  The block that opens \<^verbatim>\<open>create_and_download_debug_cert\<close> (certificate list), the
  device query of \<^verbatim>\<open>create_and_download_debug_profile\<close> (device list) and
  \<^verbatim>\<open>check_or_login_huawei_eco\<close> (team list): one call; on 401 one
  \<^verbatim>\<open>login_eco\<close> and the same call again, fatal unless it answers 200; any other
  status but 200 is fatal.
\<close>

definition list_with_login :: "request \<Rightarrow> world \<Rightarrow> jdoc option outcome \<times> world" where
  "list_with_login rq w =
     (case http_request rq w of
        ((resp_body, http_code), w1) \<Rightarrow>
          if http_code = 401 then
            and_then login_eco
              (\<lambda>_ w2.
                 case http_request rq w2 of
                   ((resp_body2, http_code2), w3) \<Rightarrow>
                     if http_code2 \<noteq> 200 then (Exits ListAfterLoginFailed, w3)
                     else (Returns resp_body2, w3))
              w1
          else if http_code \<noteq> 200 then (Exits ListFailed, w1)
          else (Returns resp_body, w1))"

section \<open>Reconciler: certificates\<close>

text \<open>
  \<^verbatim>\<open>download_cert\<close>: ask the reapply endpoint for the download URL, then download.
\<close>

definition download_cert :: "string \<Rightarrow> string \<Rightarrow> world \<Rightarrow> string outcome \<times> world" where
  "download_cert cert_object_id file_name w =
     (case http_request (ReapplyReq cert_object_id) w of
        ((resp_body, http_code), w1) \<Rightarrow>
          if http_code \<noteq> 200 then (Exits (ReapplyFailed http_code), w1)
          else
            case resp_body of
              None \<Rightarrow> (Exits ReapplyMalformed, w1)
            | Some resp_json \<Rightarrow>
                (case urlsInfo resp_json of
                   None \<Rightarrow> (Exits ReapplyMalformed, w1)
                 | Some [] \<Rightarrow> (Exits ReapplyMalformed, w1)
                 | Some (None # _) \<Rightarrow> (Exits ReapplyMalformed, w1)
                 | Some (Some download_url # _) \<Rightarrow>
                     if download_url = [] then (Exits ReapplyEmptyUrl, w1)
                     else download_file download_url file_name w1))"

text \<open>
  \<^verbatim>\<open>create_keystore\<close> and \<^verbatim>\<open>create_csr\<close> skip their work when the file
  exists; otherwise they run \<^verbatim>\<open>keytool\<close>, which either fails (exit) or leaves the
  file. \<^verbatim>\<open>read_csr\<close> exits when the file is missing.
\<close>

definition create_keystore ::
  "string \<Rightarrow> string \<Rightarrow> string \<Rightarrow> string \<Rightarrow> world \<Rightarrow> unit outcome \<times> world" where
  "create_keystore keystore_path storepass alias common_name w =
     (if isfile w keystore_path then (Returns (), w)
      else if keytool_ok w then (Returns (), w\<lparr>fs := (fs w)(keystore_path := Blob)\<rparr>)
      else (Exits KeystoreFailed, w))"

definition create_csr ::
  "string \<Rightarrow> string \<Rightarrow> string \<Rightarrow> string \<Rightarrow> world \<Rightarrow> unit outcome \<times> world" where
  "create_csr keystore_path csr_path alias storepass w =
     (if isfile w csr_path then (Returns (), w)
      else if keytool_ok w then (Returns (), w\<lparr>fs := (fs w)(csr_path := Blob)\<rparr>)
      else (Exits CsrFailed, w))"

definition read_csr :: "string \<Rightarrow> world \<Rightarrow> string outcome \<times> world" where
  "read_csr csr_path w =
     (if \<not> isfile w csr_path then (Exits CsrMissing, w) else (Returns (csr_text w), w))"

record cert_info =
  new_cert :: bool
  cert_id :: string
  cert_name :: string
  cert_path :: string

definition cert_config :: "string \<Rightarrow> string \<Rightarrow> string \<Rightarrow> config" where
  "cert_config is_new cid cert_file_path =
     [''debug_cert_new_cert'' \<mapsto> is_new, ''debug_cert_id'' \<mapsto> cid,
      ''debug_cert_name'' \<mapsto> basename cert_file_path,
      ''debug_cert_path'' \<mapsto> cert_file_path]"

definition or_default :: "string \<Rightarrow> string \<Rightarrow> string" where
  "or_default v d = (if v \<noteq> [] then v else d)"

text \<open>
  The end of \<^verbatim>\<open>create_and_download_debug_cert\<close>, from the submission of the CSR
  on: \<^verbatim>\<open>create_cert\<close>, then the checks of the status code, of the JSON, of
  \<^verbatim>\<open>ret.code\<close> and of the two identifiers, the download and the config update.
\<close>

definition submit_csr :: "string \<Rightarrow> string \<Rightarrow> string \<Rightarrow> world \<Rightarrow> cert_info outcome \<times> world" where
  "submit_csr name cert_file csr_content w =
     (case http_request (CertAddReq name 1 csr_content) w of
        ((resp_body, http_code), w1) \<Rightarrow>
          if http_code \<noteq> 200 then (Exits CreateFailed, w1)
          else
            case resp_body of
              None \<Rightarrow> (Exits NotJson, w1)
            | Some resp_json \<Rightarrow>
                if get_or 0 (ret_code resp_json) \<noteq> 0
                then (Exits (Rejected (get_or [] (ret_msg resp_json))), w1)
                else if \<not> truthy (harmonyCert_certObjectId resp_json)
                        \<or> \<not> truthy (harmonyCert_id resp_json)
                then (Exits CreateIncomplete, w1)
                else
                  let new_cert_object_id = get_or [] (harmonyCert_certObjectId resp_json);
                      new_cert_id = get_or [] (harmonyCert_id resp_json)
                  in and_then (download_cert new_cert_object_id cert_file)
                       (\<lambda>cert_file_path w2.
                          (Returns \<lparr> new_cert = True, cert_id = new_cert_id,
                                     cert_name = basename cert_file_path,
                                     cert_path = cert_file_path \<rparr>,
                           update_config (cert_config ''true'' new_cert_id cert_file_path) w2))
                       w1)"

text \<open>
  The creation branch of \<^verbatim>\<open>create_and_download_debug_cert\<close>, from
  \<^verbatim>\<open>same_ids\<close> on: delete the same-named certificates that have an identifier,
  in one call whose answer is not looked at; make sure keystore and CSR exist; read the
  CSR and submit it.
\<close>

definition same_ids_of :: "string \<Rightarrow> cert_entry list \<Rightarrow> string list" where
  "same_ids_of name debug_certs =
     map (\<lambda>c. get_or [] (ce_id c))
       (filter (\<lambda>c. ce_certName c = Some name \<and> truthy (ce_id c)) debug_certs)"

definition create_new_debug_cert ::
  "string \<Rightarrow> string \<Rightarrow> cert_entry list \<Rightarrow> world \<Rightarrow> cert_info outcome \<times> world" where
  "create_new_debug_cert name cert_file debug_certs w0 =
     (let same_ids = same_ids_of name debug_certs;
          w = (if same_ids \<noteq> [] then snd (http_request (CertDeleteReq same_ids) w0) else w0);
          keystore_path = or_default (get_config_value w ''keystore_file'')
                            (path_join (STORE_DIR w) ''xiaobai.p12'');
          storepass = or_default (get_config_value w ''storepass'') DEFAULT_STOREPASS;
          alias = or_default (get_config_value w ''keyalias'') DEFAULT_KEYALIAS
      in and_then (create_keystore keystore_path storepass alias ''xiaobai'')
           (\<lambda>_ w1.
              let csr_path = or_default (get_config_value w1 ''csr_file'')
                               (path_join (STORE_DIR w1) ''xiaobai.csr'')
              in and_then (create_csr keystore_path csr_path alias storepass)
                   (\<lambda>_. and_then (read_csr csr_path) (submit_csr name cert_file))
                   w1)
           w)"

text \<open>
  \<^verbatim>\<open>create_and_download_debug_cert\<close>: list, keep the debug certificates
  (\<^verbatim>\<open>certType == 1\<close>), take the first of those with the name; with an identifier
  and an object identifier it is reused (returned from the cache when the local file
  exists and the identifier is the cached one, downloaded otherwise); in every other
  case a new certificate is requested.
\<close>

definition debug_certs_of :: "jdoc \<Rightarrow> cert_entry list" where
  "debug_certs_of resp_json =
     filter (\<lambda>c. ce_certType c = Some 1) (get_or [] (certList resp_json))"

definition same_name_certs_of :: "string \<Rightarrow> cert_entry list \<Rightarrow> cert_entry list" where
  "same_name_certs_of name debug_certs = filter (\<lambda>c. ce_certName c = Some name) debug_certs"

definition create_and_download_debug_cert ::
  "string \<Rightarrow> string \<Rightarrow> world \<Rightarrow> cert_info outcome \<times> world" where
  "create_and_download_debug_cert name existing_cert_id w0 =
     (let cert_file = name @ ''.cer'' in
      and_then (list_with_login CertListReq)
        (\<lambda>resp_body w.
           case resp_body of
             None \<Rightarrow> (Exits NotJson, w)
           | Some resp_json \<Rightarrow>
               let debug_certs = debug_certs_of resp_json;
                   same_name_certs = same_name_certs_of name debug_certs
               in case same_name_certs of
                    [] \<Rightarrow> create_new_debug_cert name cert_file debug_certs w
                  | c0 # _ \<Rightarrow>
                      if truthy (ce_id c0) \<and> truthy (ce_certObjectId c0) then
                        let cid = get_or [] (ce_id c0);
                            cert_object_id = get_or [] (ce_certObjectId c0);
                            local_cert_path = path_join (CONFIG_DIR w) (name @ ''.cer'')
                        in if isfile w local_cert_path \<and> cid = existing_cert_id
                           then (Returns \<lparr> new_cert = False, cert_id = cid, cert_name = cert_file,
                                            cert_path = local_cert_path \<rparr>, w)
                           else and_then (download_cert cert_object_id cert_file)
                                  (\<lambda>cert_file_path w1.
                                     (Returns \<lparr> new_cert = False, cert_id = cid,
                                                cert_name = basename cert_file_path,
                                                cert_path = cert_file_path \<rparr>,
                                      update_config (cert_config ''false'' cid cert_file_path) w1))
                                  w
                      else create_new_debug_cert name cert_file debug_certs w)
        w0)"

section \<open>Reconciler: devices and profiles\<close>

text \<open>\<^verbatim>\<open>str.strip\<close> on ASCII white space.\<close>

definition isspace :: "char \<Rightarrow> bool" where
  "isspace c = (c \<in> set [CHR '' '', CHR 0x09, CHR 0x0A, CHR 0x0B, CHR 0x0C, CHR 0x0D])"

definition strip :: "string \<Rightarrow> string" where
  "strip s = rev (dropWhile isspace (rev (dropWhile isspace s)))"

record profile_info =
  profile_name :: string
  profile_path :: string

definition profile_config :: "string \<Rightarrow> string \<Rightarrow> config" where
  "profile_config filename path = [''debug_profile_name'' \<mapsto> filename, ''debug_profile_path'' \<mapsto> path]"

text \<open>
  The registration block of \<^verbatim>\<open>create_and_download_debug_profile\<close>: register the
  device (the answer of the call is not looked at), list the devices again and look for
  the UDID; the registration counts as failed when the UDID is not in the new listing.
\<close>

definition register_device :: "string \<Rightarrow> world \<Rightarrow> device_entry outcome \<times> world" where
  "register_device udid w =
     (let w1 = snd (http_request (DeviceAddReq (''xiaobai-device-'' @ take 10 udid) udid) w) in
      case http_request DeviceListReq w1 of
        ((resp_body, http_code), w2) \<Rightarrow>
          if http_code \<noteq> 200 then (Exits ListAfterRegisterFailed, w2)
          else
            case resp_body of
              None \<Rightarrow> (Exits NotJson, w2)
            | Some resp_json \<Rightarrow>
                (case find (\<lambda>device. de_udid device = Some udid) (get_or [] (device_list resp_json)) of
                   None \<Rightarrow> (Exits RegisterNotListed, w2)
                 | Some found \<Rightarrow> (Returns found, w2)))"

text \<open>
  The end of \<^verbatim>\<open>create_and_download_debug_profile\<close>, once the device is found:
  the profile is requested for the cached certificate identifier; status, JSON,
  \<^verbatim>\<open>ret.code\<close> and the URL are checked; the profile is downloaded and the config
  updated.
\<close>

definition request_profile ::
  "string \<Rightarrow> string \<Rightarrow> string \<Rightarrow> device_entry \<Rightarrow> world \<Rightarrow> profile_info outcome \<times> world" where
  "request_profile prof_name package_name profile_filename found w =
     (if \<not> truthy (de_id found) then (Exits DeviceIdMissing, w)
      else
        let dev_id = get_or [] (de_id found);
            cid = get_config_value w ''debug_cert_id''
        in if cid = [] then (Exits NoDebugCertId, w)
           else
             case http_request (ProvisionAddReq prof_name [dev_id] [cid] package_name) w of
               ((resp_body, http_code), w1) \<Rightarrow>
                 if http_code \<noteq> 200 then (Exits CreateFailed, w1)
                 else
                   case resp_body of
                     None \<Rightarrow> (Exits NotJson, w1)
                   | Some resp_json \<Rightarrow>
                       if get_or 0 (ret_code resp_json) \<noteq> 0
                       then (Exits (Rejected (get_or [] (ret_msg resp_json))), w1)
                       else if \<not> truthy (provisionFileUrl resp_json)
                       then (Exits CreateIncomplete, w1)
                       else
                         and_then (download_file (get_or [] (provisionFileUrl resp_json)) profile_filename)
                           (\<lambda>downloaded_profile_path w2.
                              (Returns \<lparr> profile_name = profile_filename,
                                         profile_path = downloaded_profile_path \<rparr>,
                               update_config
                                 (profile_config profile_filename downloaded_profile_path) w2))
                           w1)"

text \<open>
  \<^verbatim>\<open>create_and_download_debug_profile\<close>. \<^verbatim>\<open>connect_device\<close> and
  \<^verbatim>\<open>get_udid\<close> run the \<^verbatim>\<open>hdc\<close> tool: the first succeeds or exits, the second
  gives the UDID or exits.
\<close>

definition create_and_download_debug_profile ::
  "string \<Rightarrow> string \<Rightarrow> world \<Rightarrow> profile_info outcome \<times> world" where
  "create_and_download_debug_profile prof_name package_name w0 =
     (let profile_filename =
            prof_name @ ''_'' @ map (\<lambda>c. if c = CHR ''.'' then CHR ''_'' else c) package_name @ ''.p7b'';
          prof_path = path_join (CONFIG_DIR w0) profile_filename
      in if isfile w0 prof_path
         then (Returns \<lparr> profile_name = profile_filename, profile_path = prof_path \<rparr>,
               update_config (profile_config profile_filename prof_path) w0)
         else
           let device_key = strip (DEVICE_IP w0) in
           if device_key = [] then (Exits NoDeviceIp, w0)
           else if \<not> hdc_connect_ok w0 then (Exits ConnectFailed, w0)
           else
             case hdc_udid w0 of
               None \<Rightarrow> (Exits UdidFailed, w0)
             | Some udid \<Rightarrow>
                 if udid = [] then (Exits UdidFailed, w0)
                 else
                   and_then (list_with_login DeviceListReq)
                     (\<lambda>resp_body w.
                        case resp_body of
                          None \<Rightarrow> (Exits NotJson, w)
                        | Some resp_json \<Rightarrow>
                            and_then
                              (case find (\<lambda>device. de_udid device = Some udid)
                                      (get_or [] (device_list resp_json)) of
                                 None \<Rightarrow> register_device udid
                               | Some found \<Rightarrow> (\<lambda>w'. (Returns found, w')))
                              (request_profile prof_name package_name profile_filename)
                              w)
                     w0)"

section \<open>The login check: \<^verbatim>\<open>check_or_login_huawei_eco\<close>\<close>

text \<open>
  The team list is fetched with the listing step; an empty team list starts one more
  login and one more call. The result is the name shown for the account.
\<close>

definition team_name :: "string option list \<Rightarrow> jdoc \<Rightarrow> string" where
  "team_name ts resp_json =
     (case ts of
        [] \<Rightarrow> []
      | t # _ \<Rightarrow> if truthy t then get_or [] t else get_or [] (nickName resp_json))"

definition check_or_login_huawei_eco :: "world \<Rightarrow> string outcome \<times> world" where
  "check_or_login_huawei_eco w0 =
     and_then (list_with_login UserTeamListReq)
       (\<lambda>resp_body w.
          case resp_body of
            None \<Rightarrow> (Exits NotJson, w)
          | Some resp_json \<Rightarrow>
              if get_or [] (teams resp_json) = [] then
                and_then login_eco
                  (\<lambda>_ w1.
                     case http_request UserTeamListReq w1 of
                       ((resp_body2, http_code2), w2) \<Rightarrow>
                         if http_code2 \<noteq> 200 then (Exits ListAfterLoginFailed, w2)
                         else
                           case resp_body2 of
                             None \<Rightarrow> (Exits NotJson, w2)
                           | Some resp_json2 \<Rightarrow>
                               if get_or [] (teams resp_json2) = [] then (Exits NoTeams, w2)
                               else (Returns (team_name (get_or [] (teams resp_json2)) resp_json2), w2))
                  w
              else (Returns (team_name (get_or [] (teams resp_json)) resp_json), w))
       w0"

text \<open>
  \<^verbatim>\<open>process_debug_cert\<close> and \<^verbatim>\<open>process_debug_profile\<close>, the two steps of
  \<^verbatim>\<open>main\<close>.
\<close>

definition process_debug_cert :: "world \<Rightarrow> cert_info outcome \<times> world" where
  "process_debug_cert w =
     create_and_download_debug_cert CERT_NAME (get_config_value w ''debug_cert_id'') w"

definition process_debug_profile :: "string \<Rightarrow> world \<Rightarrow> profile_info outcome \<times> world" where
  "process_debug_profile bundle_name w =
     create_and_download_debug_profile PROFILE_NAME bundle_name w"

section \<open>Notions used in the properties, example worlds and documents\<close>

text \<open>
  A world with an empty disk and a silent network, and a document with no field; the
  examples below are updates of the two.
\<close>

definition world0 :: world where
  "world0 = \<lparr> DEBUG = False, HOME_DIR = ''/home/u'', DEVICE_IP = ''10.0.0.2:5555'',
      fs = (\<lambda>p. Missing), cfg_writable = True, remote = [], keytool_ok = True,
      csr_text = ''CSR'', hdc_connect_ok = True, hdc_udid = Some ''UDID0001'',
      port_free = True, token_write_ok = True, logins = [], trace = [] \<rparr>"

definition doc0 :: jdoc where
  "doc0 = \<lparr> ret_code = None, ret_msg = None, certList = None, harmonyCert_id = None,
      harmonyCert_certObjectId = None, urlsInfo = None, device_list = None,
      provisionFileUrl = None, teams = None, nickName = None \<rparr>"

text \<open>
  Config documents with a custom \<^verbatim>\<open>keyalias\<close>: one as the script writes it, one
  that also stores the alias under \<^verbatim>\<open>keyAlias\<close>.
\<close>

definition world_custom_alias :: world where
  "world_custom_alias = world0\<lparr>fs := (fs world0)
      (ECO_CONFIG_FILE world0 := Doc [''storepass'' \<mapsto> ''secret'', ''keyalias'' \<mapsto> ''mykey''])\<rparr>"

definition world_both_alias :: world where
  "world_both_alias = world0\<lparr>fs := (fs world0)
      (ECO_CONFIG_FILE world0 :=
         Doc [''storepass'' \<mapsto> ''secret'', ''keyalias'' \<mapsto> ''mykey'', ''keyAlias'' \<mapsto> ''mykey''])\<rparr>"

text \<open>Callbacks: one without the token field, one whose exchange fails, one that succeeds.\<close>

definition cb_missing_field :: callback where
  "cb_missing_field = \<lparr> cb_path = ''/callback'', cb_tempToken = [],
     cb_temptoken_check = None, cb_jwtoken_check = JwFailed \<rparr>"

definition cb_exchange_fails :: callback where
  "cb_exchange_fails = \<lparr> cb_path = ''/callback'', cb_tempToken = [''T1''],
     cb_temptoken_check = None, cb_jwtoken_check = JwFailed \<rparr>"

definition cb_good :: callback where
  "cb_good = \<lparr> cb_path = ''/callback'', cb_tempToken = [''T1''],
     cb_temptoken_check = Some ''jwt'',
     cb_jwtoken_check = JwJson (Some [(''accessToken'', ''AT''), (''userId'', ''U7''),
                                      (''nickName'', ''nn''), (''teamId'', ''T9'')]) \<rparr>"

definition world_login :: world where
  "world_login = world0\<lparr>logins := [[cb_missing_field, cb_good]]\<rparr>"

text \<open>
  The payload \<^verbatim>\<open>login_eco\<close> finds in the token file once the server thread has
  ended (\<open>None\<close> when the thread never ends or the file was not written).
\<close>

definition handoff_payload :: "world \<Rightarrow> (string \<times> string) list option" where
  "handoff_payload w =
     (case serve_forever (token_write_ok w) (case logins w of [] \<Rightarrow> [] | c # rest \<Rightarrow> c)
             idle_server of
        None \<Rightarrow> None
      | Some (sv, unserved) \<Rightarrow> sv_token_file sv)"

text \<open>The requests on which \<^verbatim>\<open>do_POST\<close> reaches its last step.\<close>

definition exchange_succeeds :: "callback \<Rightarrow> bool" where
  "exchange_succeeds cb =
     (cb_path cb = ''/callback'' \<and> cb_tempToken cb \<noteq> [] \<and> cb_temptoken_check cb \<noteq> None
      \<and> (case cb_jwtoken_check cb of JwJson (Some ui) \<Rightarrow> ui \<noteq> [] | _ \<Rightarrow> False))"


text \<open>The status code and the body the next call will see.\<close>

definition next_status :: "reply list \<Rightarrow> int" where
  "next_status rs = (case rs of Reply code body # rest \<Rightarrow> code | _ \<Rightarrow> 0)"

definition next_body :: "reply list \<Rightarrow> jdoc option" where
  "next_body rs = (case rs of Reply code body # rest \<Rightarrow> body | _ \<Rightarrow> None)"

text \<open>The file name of a profile, and the device checks that precede the device listing.\<close>

definition profile_file :: "string \<Rightarrow> string \<Rightarrow> string" where
  "profile_file prof_name package_name =
     prof_name @ ''_'' @ map (\<lambda>c. if c = CHR ''.'' then CHR ''_'' else c) package_name @ ''.p7b''"

definition device_ready :: "world \<Rightarrow> bool" where
  "device_ready w = (strip (DEVICE_IP w) \<noteq> [] \<and> hdc_connect_ok w
      \<and> (case hdc_udid w of None \<Rightarrow> False | Some udid \<Rightarrow> udid \<noteq> []))"

text \<open>A remote that answers 401 twice, with a login that succeeds in between.\<close>

definition world_401_twice :: world where
  "world_401_twice = world0\<lparr>remote := [Reply 401 None, Reply 401 None], logins := [[cb_good]]\<rparr>"

text \<open>The trace of \<open>w'\<close> continues the trace of \<open>w\<close>.\<close>

definition grows :: "world \<Rightarrow> world \<Rightarrow> bool" where
  "grows w w' = (\<exists>evs. trace w' = trace w @ evs)"

text \<open>The events recorded between two worlds of one run.\<close>

definition events_since :: "world \<Rightarrow> world \<Rightarrow> event list" where
  "events_since w w' = drop (length (trace w)) (trace w')"

text \<open>
  The world after the delete call of the creation branch (the world itself when no
  same-named certificate has an identifier).
\<close>

definition after_delete :: "string \<Rightarrow> cert_entry list \<Rightarrow> world \<Rightarrow> world" where
  "after_delete name debug_certs w =
     (if same_ids_of name debug_certs \<noteq> []
      then w\<lparr>trace := trace w @ [Http (CertDeleteReq (same_ids_of name debug_certs))],
             remote := tl (remote w)\<rparr>
      else w)"

text \<open>
  The calls to a create endpoint (certificate, device, profile) and to the delete
  endpoint; a stretch of a run is \<open>quiet\<close> when it makes none of them.
\<close>

definition is_create :: "event \<Rightarrow> bool" where
  "is_create e =
     (case e of
        Http (CertAddReq n t c) \<Rightarrow> True
      | Http (DeviceAddReq n u) \<Rightarrow> True
      | Http (ProvisionAddReq n ds cs p) \<Rightarrow> True
      | _ \<Rightarrow> False)"

definition is_delete :: "event \<Rightarrow> bool" where
  "is_delete e = (case e of Http (CertDeleteReq ids) \<Rightarrow> True | _ \<Rightarrow> False)"

definition quiet :: "world \<Rightarrow> world \<Rightarrow> bool" where
  "quiet w w' = (\<exists>evs. trace w' = trace w @ evs \<and> \<not> list_ex is_create evs \<and> \<not> list_ex is_delete evs)"

text \<open>Where the certificate and the profile are kept in the config directory.\<close>

definition cert_file_path :: "world \<Rightarrow> string \<Rightarrow> string" where
  "cert_file_path w name = path_join (CONFIG_DIR w) (name @ ''.cer'')"

definition profile_file_path :: "world \<Rightarrow> string \<Rightarrow> string \<Rightarrow> string" where
  "profile_file_path w prof_name package_name =
     path_join (CONFIG_DIR w) (profile_file prof_name package_name)"

text \<open>
  A listing with two debug certificates of the same name and different identifiers, and
  a world whose cache matches the first: config, certificate file and profile file.
\<close>

definition cert_x1 :: cert_entry where
  "cert_x1 = \<lparr> ce_id = Some ''C1'', ce_certObjectId = Some ''O1'',
               ce_certName = Some ''xiaobai-debug'', ce_certType = Some 1 \<rparr>"

definition cert_x2 :: cert_entry where
  "cert_x2 = \<lparr> ce_id = Some ''C2'', ce_certObjectId = Some ''O2'',
               ce_certName = Some ''xiaobai-debug'', ce_certType = Some 1 \<rparr>"

definition cert_listing :: jdoc where
  "cert_listing = doc0\<lparr>certList := Some [cert_x1, cert_x2]\<rparr>"

definition world_cached :: world where
  "world_cached = world0\<lparr>
     fs := (fs world0)
       (''/home/u/.autoPublisher/config/eco_config.json'' := Doc [''debug_cert_id'' \<mapsto> ''C1''],
        ''/home/u/.autoPublisher/config/xiaobai-debug.cer'' := Blob,
        ''/home/u/.autoPublisher/config/xiaobai-debug_com_example_app.p7b'' := Blob),
     remote := [Reply 200 (Some cert_listing)]\<rparr>"

text \<open>
  Two debug certificates named \<^verbatim>\<open>x\<close> with the identifiers \<^verbatim>\<open>A\<close> and
  \<^verbatim>\<open>B\<close>, the first without an object identifier, so that a creation is triggered;
  the delete call is answered with a nonzero \<^verbatim>\<open>ret.code\<close>.
\<close>

definition dup_a :: cert_entry where
  "dup_a = \<lparr> ce_id = Some ''A'', ce_certObjectId = None,
             ce_certName = Some ''x'', ce_certType = Some 1 \<rparr>"

definition dup_b :: cert_entry where
  "dup_b = \<lparr> ce_id = Some ''B'', ce_certObjectId = Some ''OB'',
             ce_certName = Some ''x'', ce_certType = Some 1 \<rparr>"

definition dup_listing :: jdoc where
  "dup_listing = doc0\<lparr>certList := Some [dup_a, dup_b]\<rparr>"

definition world_dup :: world where
  "world_dup = world0\<lparr>remote :=
     [Reply 200 (Some dup_listing),
      Reply 200 (Some (doc0\<lparr>ret_code := Some 1, ret_msg := Some ''denied''\<rparr>)),
      Reply 200 (Some (doc0\<lparr>harmonyCert_id := Some ''N'', harmonyCert_certObjectId := Some ''ON''\<rparr>)),
      Reply 200 (Some (doc0\<lparr>urlsInfo := Some [Some ''https://files/x.cer'']\<rparr>)),
      Reply 200 None]\<rparr>"

text \<open>
  A world whose config records a certificate and a profile whose files are gone, with
  the answers a certificate run needs (listing, reapply, download) and those a profile run
  needs (device listing, profile creation, download).
\<close>

definition stale_config :: config where
  "stale_config =
     [''debug_cert_id'' \<mapsto> ''C1'',
      ''debug_cert_path'' \<mapsto> ''/home/u/.autoPublisher/config/xiaobai-debug.cer'',
      ''debug_profile_path'' \<mapsto> ''/home/u/.autoPublisher/config/xiaobai-debug_com_example_app.p7b'']"

definition world_stale_cert :: world where
  "world_stale_cert = world0\<lparr>
     fs := (fs world0)(''/home/u/.autoPublisher/config/eco_config.json'' := Doc stale_config),
     remote := [Reply 200 (Some cert_listing),
                Reply 200 (Some (doc0\<lparr>urlsInfo := Some [Some ''https://files/c1.cer'']\<rparr>)),
                Reply 200 None]\<rparr>"

definition world_stale_profile :: world where
  "world_stale_profile = world0\<lparr>
     fs := (fs world0)(''/home/u/.autoPublisher/config/eco_config.json'' := Doc stale_config),
     remote := [Reply 200 (Some (doc0\<lparr>device_list :=
                   Some [\<lparr> de_id = Some ''D1'', de_udid = Some ''UDID0001'' \<rparr>]\<rparr>)),
                Reply 200 (Some (doc0\<lparr>provisionFileUrl := Some ''https://files/p1.p7b''\<rparr>)),
                Reply 200 None]\<rparr>"

text \<open>
  An answer that rejects the request under status 200, alone and in front of a device
  listing that shows the device.
\<close>

definition rejection :: jdoc where
  "rejection = doc0\<lparr>ret_code := Some 1, ret_msg := Some ''denied''\<rparr>"

definition world_rejected :: world where
  "world_rejected = world0\<lparr>
     fs := (fs world0)(''/home/u/.autoPublisher/config/eco_config.json'' := Doc stale_config),
     remote := [Reply 200 (Some rejection)]\<rparr>"

definition device_d1 :: device_entry where
  "device_d1 = \<lparr> de_id = Some ''D1'', de_udid = Some ''UDID0001'' \<rparr>"

definition world_register_rejected :: world where
  "world_register_rejected = world0\<lparr>remote :=
     [Reply 200 (Some rejection), Reply 200 (Some (doc0\<lparr>device_list := Some [device_d1]\<rparr>))]\<rparr>"

text \<open>
  The stale world of above with the answers of two certificate runs: listing, reapply
  and download for the first, the same listing for the second.
\<close>

definition world_two_runs :: world where
  "world_two_runs = world_stale_cert\<lparr>remote := remote world_stale_cert @ [Reply 200 (Some cert_listing)]\<rparr>"

section \<open>Properties of the config store\<close>

lemma isfile_iff: "isfile w p = (fs w p \<noteq> Missing)"
  by (simp add: isfile_def split: fstate.splits)

lemma ECO_CONFIG_FILE_fs [simp]: "ECO_CONFIG_FILE (w\<lparr>fs := d\<rparr>) = ECO_CONFIG_FILE w"
  by (simp add: ECO_CONFIG_FILE_def CONFIG_DIR_def)

lemma ECO_CONFIG_FILE_trace [simp]: "ECO_CONFIG_FILE (w\<lparr>trace := t\<rparr>) = ECO_CONFIG_FILE w"
  by (simp add: ECO_CONFIG_FILE_def CONFIG_DIR_def)

lemma ECO_CONFIG_FILE_remote [simp]: "ECO_CONFIG_FILE (w\<lparr>remote := r\<rparr>) = ECO_CONFIG_FILE w"
  by (simp add: ECO_CONFIG_FILE_def CONFIG_DIR_def)

lemma ECO_CONFIG_FILE_logins [simp]: "ECO_CONFIG_FILE (w\<lparr>logins := l\<rparr>) = ECO_CONFIG_FILE w"
  by (simp add: ECO_CONFIG_FILE_def CONFIG_DIR_def)

lemma read_after_write:
  "cfg_writable w \<Longrightarrow> read_eco_config (write_eco_config data w) = data"
  by (simp add: read_eco_config_def write_eco_config_def write_eco_config_ops_def)

lemma write_keeps_env [simp]:
  "cfg_writable (write_eco_config data w) = cfg_writable w"
  "ECO_CONFIG_FILE (write_eco_config data w) = ECO_CONFIG_FILE w"
  "trace (write_eco_config data w) = trace w"
  by (simp_all add: write_eco_config_def)

lemma update_keeps_env [simp]:
  "cfg_writable (update_config kwargs w) = cfg_writable w"
  "ECO_CONFIG_FILE (update_config kwargs w) = ECO_CONFIG_FILE w"
  "trace (update_config kwargs w) = trace w"
  by (simp_all add: update_config_def)

lemma read_after_update:
  "cfg_writable w \<Longrightarrow> read_eco_config (update_config kwargs w) = read_eco_config w ++ kwargs"
  by (simp add: update_config_def read_after_write)

lemma isfile_write:
  "isfile w p \<Longrightarrow> isfile (write_eco_config data w) p"
  by (simp add: isfile_iff write_eco_config_def write_eco_config_ops_def)

lemma isfile_update:
  "isfile w p \<Longrightarrow> isfile (update_config kwargs w) p"
  by (simp add: update_config_def isfile_write)

lemma ECO_world0: "ECO_CONFIG_FILE world0 = ''/home/u/.autoPublisher/config/eco_config.json''"
  by (simp add: ECO_CONFIG_FILE_def CONFIG_DIR_def path_join_def world0_def)

text \<open>
  Claim C6. Config writes merge: when the write goes through, the document after
  \<^verbatim>\<open>update_config\<close> holds every key of the update with its new value and every
  other key with the value it had; an update of \<^verbatim>\<open>a\<close> followed by an update of
  \<^verbatim>\<open>b\<close> leaves a document with both.
\<close>

theorem update_config_merge:
  assumes "cfg_writable w"
  shows "(\<forall>k \<in> dom kwargs. read_eco_config (update_config kwargs w) k = kwargs k)
       \<and> (\<forall>k. k \<notin> dom kwargs \<longrightarrow>
             read_eco_config (update_config kwargs w) k = read_eco_config w k)
       \<and> read_eco_config (update_config [''b'' \<mapsto> ''2''] (update_config [''a'' \<mapsto> ''1''] w)) ''a''
           = Some ''1''
       \<and> read_eco_config (update_config [''b'' \<mapsto> ''2''] (update_config [''a'' \<mapsto> ''1''] w)) ''b''
           = Some ''2''"
proof (intro conjI)
  show "\<forall>k \<in> dom kwargs. read_eco_config (update_config kwargs w) k = kwargs k"
    using assms by (auto simp: read_after_update map_add_def)
  show "\<forall>k. k \<notin> dom kwargs \<longrightarrow>
          read_eco_config (update_config kwargs w) k = read_eco_config w k"
    using assms by (auto simp: read_after_update map_add_def split: option.splits)
  show "read_eco_config (update_config [''b'' \<mapsto> ''2''] (update_config [''a'' \<mapsto> ''1''] w)) ''a''
          = Some ''1''"
    using assms by (simp add: read_after_update)
  show "read_eco_config (update_config [''b'' \<mapsto> ''2''] (update_config [''a'' \<mapsto> ''1''] w)) ''b''
          = Some ''2''"
    using assms by (simp add: read_after_update)
qed

theorem update_config_merge_witness:
  "cfg_writable world0
   \<and> read_eco_config
        (update_config [''k'' \<mapsto> ''new'']
           (update_config [''k'' \<mapsto> ''old'', ''j'' \<mapsto> ''x''] world0)) ''k'' = Some ''new''
   \<and> read_eco_config
        (update_config [''k'' \<mapsto> ''new'']
           (update_config [''k'' \<mapsto> ''old'', ''j'' \<mapsto> ''x''] world0)) ''j'' = Some ''x''"
proof -
  let ?w = "update_config [''k'' \<mapsto> ''old'', ''j'' \<mapsto> ''x''] world0"
  have w: "cfg_writable ?w" by (simp add: world0_def)
  have r: "read_eco_config ?w ''j'' = Some ''x''"
    by (simp add: read_after_update world0_def)
  show ?thesis
    using update_config_merge [OF w, of "[''k'' \<mapsto> ''new'']"] r
    by (simp add: world0_def)
qed

text \<open>
  Claim C7, as stated, fails: \<^verbatim>\<open>write_eco_config\<close> has no temporary file and no
  rename. It opens the config file itself for writing, which truncates it, and dumps the
  document into it. With the document \<^verbatim>\<open>{"a": "1"}\<close> on disk and
  \<^verbatim>\<open>{"a": "2"}\<close> being written, a crash after the first operation leaves a file
  that is neither of the two.
\<close>

theorem write_not_atomic_counterexample:
  "crash_after 1 (write_eco_config_ops world0 [''a'' \<mapsto> ''2''])
      ((fs world0)(ECO_CONFIG_FILE world0 := Doc [''a'' \<mapsto> ''1'']))
      (ECO_CONFIG_FILE world0) = Blob
   \<and> Blob \<noteq> Doc [''a'' \<mapsto> ''1''] \<and> Blob \<noteq> Doc [''a'' \<mapsto> ''2'']
   \<and> \<not> list_ex is_rename (write_eco_config_ops world0 [''a'' \<mapsto> ''2''])"
  by (simp add: crash_after_def write_eco_config_ops_def is_rename_def)

text \<open>
  Claim C7, amended. Every operation of a config write targets the config file itself
  and none is a rename. A crash before the first operation leaves the old file, a crash
  between the two leaves a truncated file, and the completed write leaves the new
  document; a write that cannot open the file changes nothing.
\<close>

theorem write_in_place:
  "list_all (\<lambda>op. \<not> is_rename op \<and> op_target op = ECO_CONFIG_FILE w) (write_eco_config_ops w data)
   \<and> crash_after 0 (write_eco_config_ops w data) d = d
   \<and> crash_after 1 (write_eco_config_ops w data) d = d(ECO_CONFIG_FILE w := Blob)
   \<and> crash_after 2 (write_eco_config_ops w data) d = d(ECO_CONFIG_FILE w := Doc data)
   \<and> write_eco_config data w =
       (if cfg_writable w then w\<lparr>fs := (fs w)(ECO_CONFIG_FILE w := Doc data)\<rparr> else w)"
  by (simp add: crash_after_def write_eco_config_ops_def is_rename_def op_target_def
      write_eco_config_def numeral_2_eq_2)

theorem write_in_place_witness:
  "crash_after 2 (write_eco_config_ops world0 [''a'' \<mapsto> ''2''])
      ((fs world0)(ECO_CONFIG_FILE world0 := Doc [''a'' \<mapsto> ''1'']))
      (ECO_CONFIG_FILE world0) = Doc [''a'' \<mapsto> ''2'']
   \<and> fs (write_eco_config [''a'' \<mapsto> ''2''] world0) (ECO_CONFIG_FILE world0) = Doc [''a'' \<mapsto> ''2'']"
  using write_in_place [of world0 "[''a'' \<mapsto> ''2'']"
      "(fs world0)(ECO_CONFIG_FILE world0 := Doc [''a'' \<mapsto> ''1''])"]
  by (simp add: world0_def)

text \<open>
  Claim C9, amended. When the config document exists, can be written and stores no
  non-empty value under \<^verbatim>\<open>keyAlias\<close> (the key the probe reads; the script itself
  never writes it), \<^verbatim>\<open>initialize_eco_config\<close> returns with \<^verbatim>\<open>keyalias\<close>
  set to the built-in default, whatever \<^verbatim>\<open>keyalias\<close> held before. In debug mode
  the document is cleared first, so the probe sees nothing in any case.
\<close>

theorem initialize_rewrites_keyalias:
  assumes "isfile w (ECO_CONFIG_FILE w)" and "cfg_writable w"
    and "\<not> DEBUG w \<Longrightarrow> get_config_value w ''keyAlias'' = []"
  shows "\<exists>w'. initialize_eco_config w = (Returns (), w')
            \<and> read_eco_config w' ''keyalias'' = Some DEFAULT_KEYALIAS"
proof (cases "DEBUG w")
  case True
  let ?w1 = "w\<lparr>fs := foldl exec_op (fs w) (write_eco_config_ops w Map.empty)\<rparr>"
  have c: "clear_eco_config_file w = (Returns (), ?w1)"
    using assms(2) by (simp add: clear_eco_config_file_def)
  have r: "read_eco_config ?w1 = Map.empty"
    by (simp add: read_eco_config_def write_eco_config_ops_def)
  have f: "isfile ?w1 (ECO_CONFIG_FILE ?w1)"
    by (simp add: isfile_iff write_eco_config_ops_def)
  have wr: "cfg_writable ?w1" using assms(2) by simp
  show ?thesis
    using True c f wr
    by (simp add: initialize_eco_config_def and_then_def get_config_value_def get_or_def r
        read_after_update Let_def)
next
  case False
  then have k: "get_config_value w ''keyAlias'' = []" using assms(3) by simp
  then have k': "read_eco_config w ''keyAlias'' = None \<or> read_eco_config w ''keyAlias'' = Some []"
    by (auto simp: get_config_value_def get_or_def split: option.splits)
  show ?thesis
    using False assms(1,2) k k'
    by (auto simp: initialize_eco_config_def and_then_def get_config_value_def get_or_def
        read_after_update Let_def split: option.splits)
qed

theorem initialize_rewrites_keyalias_witness:
  "read_eco_config world_custom_alias ''keyalias'' = Some ''mykey''
   \<and> (\<exists>w'. initialize_eco_config world_custom_alias = (Returns (), w')
            \<and> read_eco_config w' ''keyalias'' = Some ''xiaobai'')"
proof -
  have e: "ECO_CONFIG_FILE world_custom_alias = ECO_CONFIG_FILE world0"
    by (simp add: world_custom_alias_def)
  have a: "isfile world_custom_alias (ECO_CONFIG_FILE world_custom_alias)"
    by (simp add: e isfile_iff world_custom_alias_def)
  have b: "cfg_writable world_custom_alias"
    by (simp add: world_custom_alias_def world0_def)
  have r: "read_eco_config world_custom_alias =
      [''storepass'' \<mapsto> ''secret'', ''keyalias'' \<mapsto> ''mykey'']"
    by (simp add: read_eco_config_def e) (simp add: world_custom_alias_def)
  have c: "get_config_value world_custom_alias ''keyAlias'' = []"
    by (simp add: get_config_value_def r get_or_def)
  show ?thesis
    using initialize_rewrites_keyalias [OF a b c] r
    by (simp add: DEFAULT_KEYALIAS_def)
qed

text \<open>
  Claim C9, as stated, fails: the overwrite is not unconditional. A document that stores
  a value under \<^verbatim>\<open>keyAlias\<close> next to a custom \<^verbatim>\<open>keyalias\<close> satisfies
  the probe, and initialization leaves the whole document, the custom
  \<^verbatim>\<open>keyalias\<close> included, as it is.
\<close>

theorem keyalias_kept_counterexample:
  "isfile world_both_alias (ECO_CONFIG_FILE world_both_alias)
   \<and> read_eco_config world_both_alias ''keyalias'' = Some ''mykey''
   \<and> initialize_eco_config world_both_alias = (Returns (), world_both_alias)"
proof -
  have e: "ECO_CONFIG_FILE world_both_alias = ECO_CONFIG_FILE world0"
    by (simp add: world_both_alias_def)
  have a: "isfile world_both_alias (ECO_CONFIG_FILE world_both_alias)"
    by (simp add: e isfile_iff world_both_alias_def)
  have r: "read_eco_config world_both_alias =
      [''storepass'' \<mapsto> ''secret'', ''keyalias'' \<mapsto> ''mykey'', ''keyAlias'' \<mapsto> ''mykey'']"
    by (simp add: read_eco_config_def e) (simp add: world_both_alias_def)
  have d: "\<not> DEBUG world_both_alias"
    by (simp add: world_both_alias_def world0_def)
  show ?thesis
    using a d
    by (simp add: initialize_eco_config_def and_then_def get_config_value_def get_or_def r Let_def)
qed

section \<open>Properties of the callback server and the login\<close>

lemma do_POST_shutdown:
  "sv_shutdown (do_POST token_ok cb s) = (sv_shutdown s \<or> exchange_succeeds cb)"
  by (auto simp: do_POST_def send_response_def exchange_succeeds_def get_or_def Let_def
      split: list.splits option.splits jw_reply.splits)

lemma do_POST_replies:
  "\<exists>code. sv_replies (do_POST token_ok cb s) = sv_replies s @ [code]"
  by (auto simp: do_POST_def send_response_def get_or_def Let_def
      split: list.splits option.splits jw_reply.splits)

text \<open>
  Claim C2 asks that the server stop after the first POST to the callback path on every
  exit path of the handler. The handler reaches \<^verbatim>\<open>server.shutdown\<close> only on
  its success path (\<open>do_POST_shutdown\<close>). A POST to \<^verbatim>\<open>/callback\<close> without
  \<^verbatim>\<open>tempToken\<close>, and one whose token exchange fails, are answered with 400 and
  leave the server serving: it answers the requests that follow, and when none follows
  the server thread never ends and \<^verbatim>\<open>login_eco\<close> waits for it forever.
\<close>

theorem failed_callback_keeps_serving:
  "do_POST True cb_missing_field idle_server = idle_server\<lparr>sv_replies := [400]\<rparr>
   \<and> do_POST True cb_exchange_fails idle_server = idle_server\<lparr>sv_replies := [400]\<rparr>
   \<and> sv_shutdown (do_POST True cb_good idle_server)
   \<and> serve_forever True [cb_missing_field, cb_exchange_fails, cb_good] idle_server
       = Some (\<lparr> sv_shutdown = True,
                  sv_token_file = Some [(''accessToken'', ''AT''), (''userId'', ''U7''),
                                        (''nickName'', ''nn''), (''teamId'', ''T9'')],
                  sv_replies = [400, 400, 200] \<rparr>, [])
   \<and> serve_forever True [cb_missing_field] idle_server = None
   \<and> fst (login_eco (world0\<lparr>logins := [[cb_exchange_fails]]\<rparr>)) = Hangs"
  by (simp add: do_POST_def send_response_def cb_missing_field_def cb_exchange_fails_def cb_good_def
      idle_server_def get_or_def login_eco_def world0_def Let_def)

lemma store_session_fields:
  assumes "tokens_get t2 ''accessToken'' = tokens_get t1 ''accessToken''"
    and "tokens_get t2 ''userId'' = tokens_get t1 ''userId''"
    and "tokens_get t2 ''nickName'' = tokens_get t1 ''nickName''"
  shows "store_session t2 w = store_session t1 w"
  using assms by (simp add: store_session_def)

lemma store_session_team:
  assumes "store_session tokens w = (Returns (), w')" and "cfg_writable w"
  shows "read_eco_config w' ''team_id'' = Some (tokens_get tokens ''userId'')
       \<and> read_eco_config w' ''uid'' = Some (tokens_get tokens ''userId'')
       \<and> tokens_get tokens ''userId'' \<noteq> []"
  using assms
  by (auto simp: store_session_def Let_def read_after_update split: if_splits)

text \<open>
  Claim C10. When \<^verbatim>\<open>login_eco\<close> returns and the config can be written, the
  config holds the \<^verbatim>\<open>userId\<close> of the handoff payload under both
  \<^verbatim>\<open>team_id\<close> and \<^verbatim>\<open>uid\<close>; and what is stored depends on the payload only
  through \<^verbatim>\<open>accessToken\<close>, \<^verbatim>\<open>userId\<close> and \<^verbatim>\<open>nickName\<close>: two
  payloads that agree on these three are stored alike, whatever else they carry.
\<close>

theorem login_team_is_user:
  assumes "login_eco w = (Returns (), w')" and "cfg_writable w"
  shows "\<exists>tokens. handoff_payload w = Some tokens
           \<and> read_eco_config w' ''team_id'' = Some (tokens_get tokens ''userId'')
           \<and> read_eco_config w' ''uid'' = Some (tokens_get tokens ''userId'')
           \<and> (\<forall>t2 v. tokens_get t2 ''accessToken'' = tokens_get tokens ''accessToken''
                  \<and> tokens_get t2 ''userId'' = tokens_get tokens ''userId''
                  \<and> tokens_get t2 ''nickName'' = tokens_get tokens ''nickName''
                  \<longrightarrow> store_session t2 v = store_session tokens v)"
proof -
  let ?w1 = "w\<lparr>trace := trace w @ [Login], logins := tl (logins w)\<rparr>"
  from assms(1) obtain sv unserved tokens where
    s: "serve_forever (token_write_ok w) (case logins w of [] \<Rightarrow> [] | c # rest \<Rightarrow> c) idle_server
          = Some (sv, unserved)"
    and t: "sv_token_file sv = Some tokens"
    and st: "store_session tokens ?w1 = (Returns (), w')"
    by (auto simp: login_eco_def Let_def split: if_splits option.splits)
  have h: "handoff_payload w = Some tokens"
    using s t by (simp add: handoff_payload_def)
  have wr: "cfg_writable ?w1" using assms(2) by simp
  show ?thesis
    using h store_session_team [OF st wr] store_session_fields by blast
qed

theorem login_team_is_user_witness:
  "cfg_writable world_login
   \<and> fst (login_eco world_login) = Returns ()
   \<and> read_eco_config (snd (login_eco world_login)) ''team_id'' = Some ''U7''
   \<and> read_eco_config (snd (login_eco world_login)) ''uid'' = Some ''U7''"
proof -
  have wr: "cfg_writable world_login" by (simp add: world_login_def world0_def)
  have p: "handoff_payload world_login =
      Some [(''accessToken'', ''AT''), (''userId'', ''U7''), (''nickName'', ''nn''), (''teamId'', ''T9'')]"
    by (simp add: handoff_payload_def world_login_def world0_def cb_missing_field_def cb_good_def
        do_POST_def send_response_def idle_server_def get_or_def Let_def)
  have r: "fst (login_eco world_login) = Returns ()"
    by (simp add: login_eco_def world_login_def world0_def cb_missing_field_def cb_good_def
        do_POST_def send_response_def idle_server_def get_or_def Let_def store_session_def
        tokens_get_def)
  then have e: "login_eco world_login = (Returns (), snd (login_eco world_login))"
    by (metis prod.collapse)
  show ?thesis
    using login_team_is_user [OF e wr] p wr r
    by (auto simp: tokens_get_def get_or_def)
qed


section \<open>Properties of the listing step\<close>

lemma http_request_eq:
  "http_request rq w =
     ((next_body (remote w), next_status (remote w)),
      w\<lparr>trace := trace w @ [Http rq], remote := tl (remote w)\<rparr>)"
  by (auto simp: http_request_def next_body_def next_status_def Let_def
      split: list.splits reply.splits)

lemma update_keeps_more [simp]:
  "remote (update_config kwargs w) = remote w"
  "logins (update_config kwargs w) = logins w"
  "port_free (update_config kwargs w) = port_free w"
  "token_write_ok (update_config kwargs w) = token_write_ok w"
  "HOME_DIR (update_config kwargs w) = HOME_DIR w"
  "CONFIG_DIR (update_config kwargs w) = CONFIG_DIR w"
  by (simp_all add: update_config_def write_eco_config_def CONFIG_DIR_def)

lemma login_eco_trace [simp]: "trace (snd (login_eco w)) = trace w @ [Login]"
  by (simp add: login_eco_def store_session_def Let_def split: option.splits prod.splits)

lemma login_eco_remote [simp]: "remote (snd (login_eco w)) = remote w"
  by (simp add: login_eco_def store_session_def Let_def split: option.splits prod.splits)

lemma list_with_login_401:
  assumes "next_status (remote w) = 401"
  shows "list_with_login rq w =
     (case login_eco (w\<lparr>trace := trace w @ [Http rq], remote := tl (remote w)\<rparr>) of
        (Returns u, w2) \<Rightarrow>
           (if next_status (remote w2) \<noteq> 200 then Exits ListAfterLoginFailed
            else Returns (next_body (remote w2)),
            w2\<lparr>trace := trace w2 @ [Http rq], remote := tl (remote w2)\<rparr>)
      | (Exits e, w2) \<Rightarrow> (Exits e, w2)
      | (Hangs, w2) \<Rightarrow> (Hangs, w2))"
  using assms
  by (simp add: list_with_login_def http_request_eq and_then_def
      split: prod.splits outcome.splits)

lemma list_with_login_other:
  assumes "next_status (remote w) \<noteq> 401"
  shows "list_with_login rq w =
     (if next_status (remote w) \<noteq> 200 then Exits ListFailed else Returns (next_body (remote w)),
      w\<lparr>trace := trace w @ [Http rq], remote := tl (remote w)\<rparr>)"
  using assms
  by (simp add: list_with_login_def http_request_eq)

lemma login_eco_fst_trace [simp]: "fst (login_eco (w\<lparr>trace := t\<rparr>)) = fst (login_eco w)"
  by (simp add: login_eco_def store_session_def Let_def split: option.splits prod.splits)

lemma login_eco_fst_remote [simp]: "fst (login_eco (w\<lparr>remote := r\<rparr>)) = fst (login_eco w)"
  by (simp add: login_eco_def store_session_def Let_def split: option.splits prod.splits)

lemma list_with_login_401_fst:
  assumes "next_status (remote w) = 401"
  shows "fst (list_with_login rq w) =
     (case fst (login_eco w) of
        Returns u \<Rightarrow> if next_status (tl (remote w)) = 200
                     then Returns (next_body (tl (remote w))) else Exits ListAfterLoginFailed
      | Exits e \<Rightarrow> Exits e
      | Hangs \<Rightarrow> Hangs)"
proof -
  let ?w1 = "w\<lparr>trace := trace w @ [Http rq], remote := tl (remote w)\<rparr>"
  have f: "fst (login_eco ?w1) = fst (login_eco w)" by simp
  have r: "remote (snd (login_eco ?w1)) = tl (remote w)" by simp
  obtain o1 w2 where l: "login_eco ?w1 = (o1, w2)" by (cases "login_eco ?w1")
  have o: "fst (login_eco w) = o1" using f l by simp
  have r2: "remote w2 = tl (remote w)" using r l by simp
  show ?thesis
    unfolding o list_with_login_401 [OF assms] l using r2 by (cases o1) simp_all
qed

lemma list_with_login_401_trace:
  assumes "next_status (remote w) = 401"
  shows "trace (snd (list_with_login rq w)) =
     trace w @ [Http rq, Login] @ (if fst (login_eco w) = Returns () then [Http rq] else [])"
proof -
  let ?w1 = "w\<lparr>trace := trace w @ [Http rq], remote := tl (remote w)\<rparr>"
  have f: "fst (login_eco ?w1) = fst (login_eco w)" by simp
  have t: "trace (snd (login_eco ?w1)) = trace w @ [Http rq, Login]" by simp
  obtain o1 w2 where l: "login_eco ?w1 = (o1, w2)" by (cases "login_eco ?w1")
  have o: "fst (login_eco w) = o1" using f l by simp
  have t2: "trace w2 = trace w @ [Http rq, Login]" using t l by simp
  show ?thesis
    unfolding o list_with_login_401 [OF assms] l using t2 by (cases o1) simp_all
qed

lemma and_then_Exits:
  "fst (m w) = Exits e \<Longrightarrow> and_then m f w = (Exits e, snd (m w))"
  by (cases "m w") (simp add: and_then_def)

lemma and_then_Exits':
  "fst (m w) = Exits e \<Longrightarrow> fst (and_then m f w) = Exits e \<and> trace (snd (and_then m f w)) = trace (snd (m w))"
  by (simp add: and_then_Exits)

text \<open>
  Claim C3. When the first answer of a listing call is 401, the listing step makes
  exactly this sequence of calls: the listing, one \<^verbatim>\<open>login_eco\<close>, and, when the
  login returns, the listing once more. Its outcome is the retried answer when that is
  200, a fatal exit when it is anything else (a second 401 included), and the login's own
  exit or hang when the login does not return. The certificate flow, the login check and
  the profile flow (once it has reached the device listing) then exit after exactly these
  three events: nothing loops and nothing is tried again.
\<close>

theorem relogin_once_then_fatal:
  assumes "next_status (remote w) = 401"
  shows "trace (snd (list_with_login rq w)) =
           trace w @ [Http rq, Login] @ (if fst (login_eco w) = Returns () then [Http rq] else [])
       \<and> fst (list_with_login rq w) =
           (case fst (login_eco w) of
              Returns u \<Rightarrow> if next_status (tl (remote w)) = 200
                           then Returns (next_body (tl (remote w))) else Exits ListAfterLoginFailed
            | Exits e \<Rightarrow> Exits e
            | Hangs \<Rightarrow> Hangs)
       \<and> (fst (login_eco w) = Returns () \<and> next_status (tl (remote w)) \<noteq> 200 \<longrightarrow>
            fst (create_and_download_debug_cert name existing_cert_id w) = Exits ListAfterLoginFailed
          \<and> trace (snd (create_and_download_debug_cert name existing_cert_id w)) =
              trace w @ [Http CertListReq, Login, Http CertListReq]
          \<and> fst (check_or_login_huawei_eco w) = Exits ListAfterLoginFailed
          \<and> trace (snd (check_or_login_huawei_eco w)) =
              trace w @ [Http UserTeamListReq, Login, Http UserTeamListReq]
          \<and> (\<not> isfile w (path_join (CONFIG_DIR w) (profile_file prof_name package_name))
               \<and> device_ready w \<longrightarrow>
               fst (create_and_download_debug_profile prof_name package_name w)
                 = Exits ListAfterLoginFailed
             \<and> trace (snd (create_and_download_debug_profile prof_name package_name w)) =
                 trace w @ [Http DeviceListReq, Login, Http DeviceListReq]))"
proof (intro conjI impI)
  show "trace (snd (list_with_login rq w)) =
           trace w @ [Http rq, Login] @ (if fst (login_eco w) = Returns () then [Http rq] else [])"
    by (rule list_with_login_401_trace [OF assms])
  show "fst (list_with_login rq w) =
           (case fst (login_eco w) of
              Returns u \<Rightarrow> if next_status (tl (remote w)) = 200
                           then Returns (next_body (tl (remote w))) else Exits ListAfterLoginFailed
            | Exits e \<Rightarrow> Exits e
            | Hangs \<Rightarrow> Hangs)"
    by (rule list_with_login_401_fst [OF assms])
next
  assume a: "fst (login_eco w) = Returns () \<and> next_status (tl (remote w)) \<noteq> 200"
  have f: "\<And>rq. fst (list_with_login rq w) = Exits ListAfterLoginFailed"
    using a by (simp add: list_with_login_401_fst [OF assms])
  have t: "\<And>rq. trace (snd (list_with_login rq w)) = trace w @ [Http rq, Login, Http rq]"
    using a by (simp add: list_with_login_401_trace [OF assms])
  show "fst (create_and_download_debug_cert name existing_cert_id w) = Exits ListAfterLoginFailed"
    using f [of CertListReq]
    by (simp add: create_and_download_debug_cert_def and_then_Exits Let_def)
  show "trace (snd (create_and_download_debug_cert name existing_cert_id w)) =
              trace w @ [Http CertListReq, Login, Http CertListReq]"
    using f [of CertListReq] t [of CertListReq]
    by (simp add: create_and_download_debug_cert_def and_then_Exits Let_def)
  show "fst (check_or_login_huawei_eco w) = Exits ListAfterLoginFailed"
    using f [of UserTeamListReq]
    by (simp add: check_or_login_huawei_eco_def and_then_Exits)
  show "trace (snd (check_or_login_huawei_eco w)) =
              trace w @ [Http UserTeamListReq, Login, Http UserTeamListReq]"
    using f [of UserTeamListReq] t [of UserTeamListReq]
    by (simp add: check_or_login_huawei_eco_def and_then_Exits)
  assume b: "\<not> isfile w (path_join (CONFIG_DIR w) (profile_file prof_name package_name)) \<and> device_ready w"
  then obtain udid where u: "hdc_udid w = Some udid" "udid \<noteq> []"
    by (auto simp: device_ready_def split: option.splits)
  show "fst (create_and_download_debug_profile prof_name package_name w) = Exits ListAfterLoginFailed"
    using f [of DeviceListReq] b u
    by (simp add: create_and_download_debug_profile_def and_then_Exits Let_def profile_file_def
        device_ready_def)
  show "trace (snd (create_and_download_debug_profile prof_name package_name w)) =
                 trace w @ [Http DeviceListReq, Login, Http DeviceListReq]"
    using f [of DeviceListReq] t [of DeviceListReq] b u
    by (simp add: create_and_download_debug_profile_def and_then_Exits Let_def profile_file_def
        device_ready_def)
qed

lemma login_world_401_twice: "fst (login_eco world_401_twice) = Returns ()"
  by (simp add: login_eco_def world_401_twice_def world0_def cb_good_def
        do_POST_def send_response_def idle_server_def get_or_def Let_def store_session_def
        tokens_get_def)

theorem relogin_once_then_fatal_witness:
  "next_status (remote world_401_twice) = 401
   \<and> fst (create_and_download_debug_cert CERT_NAME [] world_401_twice) = Exits ListAfterLoginFailed
   \<and> trace (snd (create_and_download_debug_cert CERT_NAME [] world_401_twice)) =
       [Http CertListReq, Login, Http CertListReq]
   \<and> fst (check_or_login_huawei_eco world_401_twice) = Exits ListAfterLoginFailed
   \<and> trace (snd (create_and_download_debug_profile PROFILE_NAME ''com.example.app'' world_401_twice)) =
       [Http DeviceListReq, Login, Http DeviceListReq]"
proof -
  have a: "next_status (remote world_401_twice) = 401"
    by (simp add: world_401_twice_def world0_def next_status_def)
  have b: "next_status (tl (remote world_401_twice)) \<noteq> 200"
    by (simp add: world_401_twice_def world0_def next_status_def)
  have c: "\<not> isfile world_401_twice
      (path_join (CONFIG_DIR world_401_twice) (profile_file PROFILE_NAME ''com.example.app''))"
    by (simp add: isfile_iff world_401_twice_def world0_def)
  have d: "device_ready world_401_twice"
    by (simp add: device_ready_def world_401_twice_def world0_def strip_def isspace_def)
  have t: "trace world_401_twice = []"
    by (simp add: world_401_twice_def world0_def)
  show ?thesis
    using relogin_once_then_fatal [OF a, of CertListReq CERT_NAME "[]" PROFILE_NAME "''com.example.app''"]
      a b c d t login_world_401_twice
    by simp
qed

section \<open>Properties of the certificate flow\<close>

lemma grows_refl [simp]: "grows w w"
  by (simp add: grows_def)

lemma grows_trans: "grows w w1 \<Longrightarrow> grows w1 w2 \<Longrightarrow> grows w w2"
  by (auto simp: grows_def)

lemma grows_same_trace: "trace w2 = trace w1 \<Longrightarrow> grows w w1 \<Longrightarrow> grows w w2"
  by (simp add: grows_def)

lemma grows_update [simp]: "grows w (update_config kwargs w') = grows w w'"
  by (simp add: grows_def)

lemma grows_http [simp]: "grows w (snd (http_request rq w))"
  by (simp add: grows_def http_request_eq)

lemma grows_download_file [simp]: "grows w (snd (download_file u f w))"
  by (simp add: grows_def download_file_def Let_def split: list.splits reply.splits)

lemma grows_login [simp]: "grows w (snd (login_eco w))"
  by (simp add: grows_def)

lemma grows_and_then:
  assumes "\<And>v. grows v (snd (m v))" and "\<And>x v. grows v (snd (f x v))"
  shows "grows w (snd (and_then m f w))"
proof (cases "m w")
  case (Pair o1 w1)
  have g: "grows w w1" using assms(1) [of w] Pair by simp
  show ?thesis
  proof (cases o1)
    case (Returns x)
    have "grows w1 (snd (f x w1))" by (rule assms(2))
    then show ?thesis
      using Pair g Returns by (auto simp: and_then_def intro: grows_trans)
  qed (use Pair g in \<open>simp_all add: and_then_def\<close>)
qed

lemma grows_download_cert [simp]: "grows w (snd (download_cert oid f w))"
proof -
  let ?w1 = "w\<lparr>trace := trace w @ [Http (ReapplyReq oid)], remote := tl (remote w)\<rparr>"
  have a: "grows w ?w1" by (simp add: grows_def)
  have b: "\<And>u. grows w (snd (download_file u f ?w1))"
    by (rule grows_trans [OF a]) simp
  show ?thesis
    using a b
    by (simp add: download_cert_def http_request_eq split: option.splits list.splits)
qed

lemma grows_list_with_login [simp]: "grows w (snd (list_with_login rq w))"
  by (cases "next_status (remote w) = 401")
     (simp_all add: grows_def list_with_login_401_trace list_with_login_other)

lemma events_since_append [simp]: "trace w' = trace w @ evs \<Longrightarrow> events_since w w' = evs"
  by (simp add: events_since_def)

lemma grows_since: "grows w w' \<Longrightarrow> trace w' = trace w @ events_since w w'"
  by (auto simp: grows_def)

lemma since_trans:
  "grows w w1 \<Longrightarrow> grows w1 w2 \<Longrightarrow> events_since w w2 = events_since w w1 @ events_since w1 w2"
  by (auto simp: grows_def)

lemma CONFIG_DIR_simps [simp]:
  "CONFIG_DIR (w\<lparr>trace := t\<rparr>) = CONFIG_DIR w"
  "CONFIG_DIR (w\<lparr>remote := r\<rparr>) = CONFIG_DIR w"
  "CONFIG_DIR (w\<lparr>fs := d\<rparr>) = CONFIG_DIR w"
  "CONFIG_DIR (w\<lparr>logins := l\<rparr>) = CONFIG_DIR w"
  by (simp_all add: CONFIG_DIR_def)

lemma isfile_simps [simp]:
  "isfile (w\<lparr>trace := t\<rparr>) p = isfile w p"
  "isfile (w\<lparr>remote := r\<rparr>) p = isfile w p"
  "isfile (w\<lparr>logins := l\<rparr>) p = isfile w p"
  "isfile (w\<lparr>fs := (fs w)(q := Blob)\<rparr>) p = (p = q \<or> isfile w p)"
  by (auto simp: isfile_iff)

lemma download_file_Returns:
  assumes "download_file u f w = (Returns p, w')"
  shows "p = path_join (CONFIG_DIR w) f
       \<and> w' = w\<lparr>trace := trace w @ [Download u p], remote := tl (remote w),
                 fs := (fs w)(p := Blob)\<rparr>"
  using assms
  by (auto simp: download_file_def Let_def split: list.splits reply.splits if_splits)

lemma download_cert_Returns:
  assumes "download_cert oid f w = (Returns p, w')"
  shows "p = path_join (CONFIG_DIR w) f
       \<and> (\<exists>u. w' = w\<lparr>trace := trace w @ [Http (ReapplyReq oid), Download u p],
                      remote := tl (tl (remote w)), fs := (fs w)(p := Blob)\<rparr>)"
proof -
  let ?w1 = "w\<lparr>trace := trace w @ [Http (ReapplyReq oid)], remote := tl (remote w)\<rparr>"
  from assms obtain u where "download_file u f ?w1 = (Returns p, w')"
    by (auto simp: download_cert_def http_request_eq split: option.splits list.splits if_splits)
  from download_file_Returns [OF this] show ?thesis by auto
qed

lemma and_then_Returns:
  assumes "and_then m f w = (Returns r, w')"
  shows "\<exists>x w1. m w = (Returns x, w1) \<and> f x w1 = (Returns r, w')"
  using assms by (auto simp: and_then_def split: prod.splits outcome.splits)

lemma submit_csr_Returns:
  assumes "submit_csr name cf csr w = (Returns r, w')"
  shows "cert_path r = path_join (CONFIG_DIR w) cf \<and> new_cert r \<and> isfile w' (cert_path r)
       \<and> (\<exists>oid u. trace w' = trace w @ [Http (CertAddReq name 1 csr), Http (ReapplyReq oid),
                                          Download u (cert_path r)])"
proof -
  let ?w1 = "w\<lparr>trace := trace w @ [Http (CertAddReq name 1 csr)], remote := tl (remote w)\<rparr>"
  from assms obtain oid cid where
    a: "and_then (download_cert oid cf)
          (\<lambda>cert_file_path w2.
              (Returns \<lparr> new_cert = True, cert_id = cid, cert_name = basename cert_file_path,
                         cert_path = cert_file_path \<rparr>,
               update_config (cert_config ''true'' cid cert_file_path) w2)) ?w1 = (Returns r, w')"
    by (auto simp: submit_csr_def http_request_eq Let_def split: option.splits if_splits)
  from and_then_Returns [OF a] obtain p w2 where d: "download_cert oid cf ?w1 = (Returns p, w2)"
    and r: "r = \<lparr> new_cert = True, cert_id = cid, cert_name = basename p, cert_path = p \<rparr>"
    and w': "w' = update_config (cert_config ''true'' cid p) w2"
    by auto
  from download_cert_Returns [OF d] obtain u where
    p: "p = path_join (CONFIG_DIR w) cf"
    and w2: "w2 = ?w1\<lparr>trace := trace ?w1 @ [Http (ReapplyReq oid), Download u p],
                      remote := tl (tl (remote ?w1)), fs := (fs ?w1)(p := Blob)\<rparr>"
    by auto
  have f: "isfile w2 p" unfolding w2 by (simp add: isfile_iff)
  have t: "trace w2 = trace w @ [Http (CertAddReq name 1 csr), Http (ReapplyReq oid), Download u p]"
    unfolding w2 by simp
  show ?thesis
    using r p w' f t by (auto simp: isfile_update)
qed

lemma create_keystore_Returns:
  assumes "create_keystore kp sp al cn w = (Returns x, w1)"
  shows "trace w1 = trace w \<and> CONFIG_DIR w1 = CONFIG_DIR w \<and> remote w1 = remote w"
  using assms by (auto simp: create_keystore_def split: if_splits)

lemma create_csr_Returns:
  assumes "create_csr kp cp al sp w = (Returns x, w1)"
  shows "trace w1 = trace w \<and> CONFIG_DIR w1 = CONFIG_DIR w \<and> remote w1 = remote w"
  using assms by (auto simp: create_csr_def split: if_splits)

lemma read_csr_Returns:
  assumes "read_csr cp w = (Returns x, w1)"
  shows "w1 = w \<and> x = csr_text w"
  using assms by (auto simp: read_csr_def split: if_splits)

lemma grows_keytool [simp]:
  "grows w (snd (create_keystore kp sp al cn w))"
  "grows w (snd (create_csr kp cp al sp w))"
  "grows w (snd (read_csr cp w))"
  by (simp_all add: grows_def create_keystore_def create_csr_def read_csr_def)

lemma grows_submit_csr [simp]: "grows w (snd (submit_csr name cf csr w))"
proof -
  let ?w1 = "w\<lparr>trace := trace w @ [Http (CertAddReq name 1 csr)], remote := tl (remote w)\<rparr>"
  have a: "grows w ?w1" by (simp add: grows_def)
  have b: "\<And>m f. (\<And>v. grows v (snd (m v))) \<Longrightarrow> (\<And>x v. grows v (snd (f x v)))
             \<Longrightarrow> grows w (snd (and_then m f ?w1))"
    by (rule grows_trans [OF a]) (rule grows_and_then)
  show ?thesis
    using a
    by (auto simp: submit_csr_def http_request_eq Let_def split: option.splits intro!: b)
qed

lemma grows_create_new:
  "grows (after_delete name dcs w) (snd (create_new_debug_cert name cf dcs w))"
  by (auto simp: create_new_debug_cert_def after_delete_def Let_def http_request_eq
      intro!: grows_and_then)

lemma create_new_trace:
  assumes "same_ids_of name dcs \<noteq> []"
  shows "\<exists>evs. trace (snd (create_new_debug_cert name cf dcs w)) =
           trace w @ Http (CertDeleteReq (same_ids_of name dcs)) # evs"
  using grows_create_new [of name dcs w cf] assms
  by (auto simp: grows_def after_delete_def)

lemma create_new_Returns:
  assumes "create_new_debug_cert name cf dcs w = (Returns r, w')"
  shows "cert_path r = path_join (CONFIG_DIR w) cf \<and> new_cert r \<and> isfile w' (cert_path r)
       \<and> (\<exists>csr oid u. trace w' = trace (after_delete name dcs w)
             @ [Http (CertAddReq name 1 csr), Http (ReapplyReq oid), Download u (cert_path r)])"
proof -
  let ?wd = "after_delete name dcs w"
  have wd: "(if same_ids_of name dcs \<noteq> []
             then snd (http_request (CertDeleteReq (same_ids_of name dcs)) w) else w) = ?wd"
    by (simp add: after_delete_def http_request_eq)
  have cd: "CONFIG_DIR ?wd = CONFIG_DIR w" by (simp add: after_delete_def)
  let ?kp = "or_default (get_config_value ?wd ''keystore_file'')
               (path_join (STORE_DIR ?wd) ''xiaobai.p12'')"
  let ?sp = "or_default (get_config_value ?wd ''storepass'') DEFAULT_STOREPASS"
  let ?al = "or_default (get_config_value ?wd ''keyalias'') DEFAULT_KEYALIAS"
  let ?cpf = "\<lambda>w1. or_default (get_config_value w1 ''csr_file'')
                      (path_join (STORE_DIR w1) ''xiaobai.csr'')"
  have c: "and_then (create_keystore ?kp ?sp ?al ''xiaobai'')
          (\<lambda>_ w1. and_then (create_csr ?kp (?cpf w1) ?al ?sp)
                    (\<lambda>_. and_then (read_csr (?cpf w1)) (submit_csr name cf)) w1) ?wd = (Returns r, w')"
    using assms unfolding create_new_debug_cert_def Let_def wd by simp
  from and_then_Returns [OF c] obtain x1 w1 where k: "create_keystore ?kp ?sp ?al ''xiaobai'' ?wd = (Returns x1, w1)"
    and c2: "and_then (create_csr ?kp (?cpf w1) ?al ?sp)
               (\<lambda>_. and_then (read_csr (?cpf w1)) (submit_csr name cf)) w1 = (Returns r, w')"
    by blast
  from and_then_Returns [OF c2] obtain x2 w2 where c: "create_csr ?kp (?cpf w1) ?al ?sp w1 = (Returns x2, w2)"
    and c3: "and_then (read_csr (?cpf w1)) (submit_csr name cf) w2 = (Returns r, w')"
    by blast
  from and_then_Returns [OF c3] obtain csr w3 where rd: "read_csr (?cpf w1) w2 = (Returns csr, w3)"
    and sb: "submit_csr name cf csr w3 = (Returns r, w')"
    by blast
  have e: "trace w3 = trace ?wd" "CONFIG_DIR w3 = CONFIG_DIR w"
    using create_keystore_Returns [OF k] create_csr_Returns [OF c] read_csr_Returns [OF rd] cd
    by auto
  show ?thesis
    using submit_csr_Returns [OF sb] e by auto
qed

lemma quiet_refl [simp]: "quiet w w"
  by (simp add: quiet_def)

lemma quiet_trans: "quiet w w1 \<Longrightarrow> quiet w1 w2 \<Longrightarrow> quiet w w2"
  by (auto simp: quiet_def list_ex_iff)

lemma quiet_update [simp]: "quiet w (update_config kwargs w') = quiet w w'"
  by (simp add: quiet_def)

lemma quiet_since: "quiet w w' \<Longrightarrow> \<not> list_ex is_create (events_since w w') \<and> \<not> list_ex is_delete (events_since w w')"
  by (auto simp: quiet_def)

lemma quiet_list_with_login:
  assumes "rq = CertListReq \<or> rq = DeviceListReq \<or> rq = UserTeamListReq"
  shows "quiet w (snd (list_with_login rq w))"
proof (cases "next_status (remote w) = 401")
  case True
  show ?thesis
    using assms list_with_login_401_trace [OF True, of rq]
    by (auto simp: quiet_def is_create_def is_delete_def)
next
  case False
  show ?thesis
    using assms by (auto simp: quiet_def is_create_def is_delete_def list_with_login_other [OF False])
qed

lemma quiet_download_cert: "quiet w (snd (download_cert oid f w))"
  by (auto simp: quiet_def is_create_def is_delete_def download_cert_def http_request_eq
      download_file_def Let_def split: option.splits list.splits reply.splits)

lemma login_eco_CONFIG_DIR [simp]: "CONFIG_DIR (snd (login_eco w)) = CONFIG_DIR w"
  by (simp add: login_eco_def store_session_def Let_def split: option.splits prod.splits)

lemma login_eco_isfile: "isfile w p \<Longrightarrow> isfile (snd (login_eco w)) p"
  by (simp add: login_eco_def store_session_def Let_def isfile_update split: option.splits prod.splits)

lemma isfile_update_rev:
  "isfile (update_config kwargs w) p \<Longrightarrow> isfile w p \<or> p = ECO_CONFIG_FILE w"
  by (auto simp: update_config_def write_eco_config_def write_eco_config_ops_def isfile_iff
      split: if_splits)

lemma login_eco_isfile_rev:
  "isfile (snd (login_eco w)) p \<Longrightarrow> isfile w p \<or> p = ECO_CONFIG_FILE w"
  by (auto simp: login_eco_def store_session_def Let_def split: option.splits prod.splits if_splits
      dest!: isfile_update_rev)

lemma list_with_login_world:
  "\<exists>t r. snd (list_with_login rq w) = w\<lparr>trace := t, remote := r\<rparr>
     \<or> snd (list_with_login rq w) = snd (login_eco (w\<lparr>trace := trace w @ [Http rq], remote := tl (remote w)\<rparr>))
     \<or> snd (list_with_login rq w) = (snd (login_eco (w\<lparr>trace := trace w @ [Http rq], remote := tl (remote w)\<rparr>)))\<lparr>trace := t, remote := r\<rparr>"
proof (cases "next_status (remote w) = 401")
  case True
  show ?thesis
    by (auto simp: list_with_login_401 [OF True] split: prod.splits outcome.splits)
next
  case False
  show ?thesis
    by (auto simp: list_with_login_other [OF False])
qed

lemma list_with_login_CONFIG_DIR [simp]: "CONFIG_DIR (snd (list_with_login rq w)) = CONFIG_DIR w"
  using list_with_login_world [of rq w] by (auto simp del: login_eco_CONFIG_DIR simp: login_eco_CONFIG_DIR)

lemma list_with_login_ECO [simp]: "ECO_CONFIG_FILE (snd (list_with_login rq w)) = ECO_CONFIG_FILE w"
  by (simp add: ECO_CONFIG_FILE_def)

lemma list_with_login_isfile: "isfile w p \<Longrightarrow> isfile (snd (list_with_login rq w)) p"
  using list_with_login_world [of rq w] login_eco_isfile [of "w\<lparr>trace := trace w @ [Http rq], remote := tl (remote w)\<rparr>" p]
  by auto

lemma list_with_login_isfile_rev:
  "isfile (snd (list_with_login rq w)) p \<Longrightarrow> isfile w p \<or> p = ECO_CONFIG_FILE w"
  using list_with_login_world [of rq w]
    login_eco_isfile_rev [of "w\<lparr>trace := trace w @ [Http rq], remote := tl (remote w)\<rparr>" p]
  by auto

lemma cert_flow_unfold:
  assumes "list_with_login CertListReq w = (Returns (Some j), w1)"
  shows "create_and_download_debug_cert name ex w =
     (case same_name_certs_of name (debug_certs_of j) of
        [] \<Rightarrow> create_new_debug_cert name (name @ ''.cer'') (debug_certs_of j) w1
      | c0 # others \<Rightarrow>
          if truthy (ce_id c0) \<and> truthy (ce_certObjectId c0) then
            if isfile w1 (path_join (CONFIG_DIR w1) (name @ ''.cer'')) \<and> get_or [] (ce_id c0) = ex
            then (Returns \<lparr> new_cert = False, cert_id = get_or [] (ce_id c0),
                           cert_name = name @ ''.cer'',
                           cert_path = path_join (CONFIG_DIR w1) (name @ ''.cer'') \<rparr>, w1)
            else and_then (download_cert (get_or [] (ce_certObjectId c0)) (name @ ''.cer''))
                   (\<lambda>cert_file_path w2.
                      (Returns \<lparr> new_cert = False, cert_id = get_or [] (ce_id c0),
                                 cert_name = basename cert_file_path,
                                 cert_path = cert_file_path \<rparr>,
                       update_config (cert_config ''false'' (get_or [] (ce_id c0)) cert_file_path) w2))
                   w1
          else create_new_debug_cert name (name @ ''.cer'') (debug_certs_of j) w1)"
  using assms
  by (simp add: create_and_download_debug_cert_def and_then_def Let_def split: list.splits)

lemma CONFIG_DIR_world0: "CONFIG_DIR world0 = ''/home/u/.autoPublisher/config''"
  by (simp add: CONFIG_DIR_def path_join_def world0_def)

lemma CONFIG_DIR_world_cached: "CONFIG_DIR world_cached = ''/home/u/.autoPublisher/config''"
  by (simp add: world_cached_def CONFIG_DIR_world0)

section \<open>Duplicate names and stale caches\<close>

lemma same_ids_all:
  "set (same_ids_of name (debug_certs_of j)) =
     {i. i \<noteq> [] \<and> (\<exists>c \<in> set (same_name_certs_of name (debug_certs_of j)). ce_id c = Some i)}"
proof (intro set_eqI iffI)
  fix i
  assume "i \<in> set (same_ids_of name (debug_certs_of j))"
  then show "i \<in> {i. i \<noteq> [] \<and> (\<exists>c \<in> set (same_name_certs_of name (debug_certs_of j)). ce_id c = Some i)}"
    by (auto simp: same_ids_of_def same_name_certs_of_def truthy_def get_or_def split: option.splits)
next
  fix i
  assume "i \<in> {i. i \<noteq> [] \<and> (\<exists>c \<in> set (same_name_certs_of name (debug_certs_of j)). ce_id c = Some i)}"
  then obtain c where c: "c \<in> set (debug_certs_of j)" "ce_certName c = Some name"
      "ce_id c = Some i" "i \<noteq> []"
    by (auto simp: same_name_certs_of_def)
  then have "c \<in> set (filter (\<lambda>c. ce_certName c = Some name \<and> truthy (ce_id c)) (debug_certs_of j))"
    by (simp add: truthy_def)
  then have "get_or [] (ce_id c) \<in> set (same_ids_of name (debug_certs_of j))"
    unfolding same_ids_of_def by (simp only: set_map) (rule imageI)
  then show "i \<in> set (same_ids_of name (debug_certs_of j))"
    using c by (simp add: get_or_def)
qed

lemma reuse_quiet:
  assumes l: "list_with_login CertListReq w = (Returns (Some j), w1)"
    and n: "same_name_certs_of name (debug_certs_of j) = c0 # others"
    and t: "truthy (ce_id c0) \<and> truthy (ce_certObjectId c0)"
  shows "quiet w (snd (create_and_download_debug_cert name ex w))"
proof -
  have w1: "w1 = snd (list_with_login CertListReq w)" using l by simp
  have q1: "quiet w w1" unfolding w1 by (rule quiet_list_with_login) simp
  have q2: "quiet w1 (snd (create_and_download_debug_cert name ex w))"
  proof (cases "isfile w1 (path_join (CONFIG_DIR w1) (name @ ''.cer'')) \<and> get_or [] (ce_id c0) = ex")
    case True
    then show ?thesis using n t by (simp add: cert_flow_unfold [OF l])
  next
    case False
    let ?d = "download_cert (get_or [] (ce_certObjectId c0)) (name @ ''.cer'') w1"
    have qd: "quiet w1 (snd ?d)" by (rule quiet_download_cert)
    show ?thesis
      using False n t qd
      by (cases ?d) (auto simp: cert_flow_unfold [OF l] and_then_def split: outcome.splits)
  qed
  show ?thesis by (rule quiet_trans [OF q1 q2])
qed

lemma reuse_first_match:
  assumes l: "list_with_login CertListReq w = (Returns (Some j), w1)"
    and n: "same_name_certs_of name (debug_certs_of j) = c0 # others"
    and t: "truthy (ce_id c0) \<and> truthy (ce_certObjectId c0)"
    and r: "create_and_download_debug_cert name ex w = (Returns r, w')"
  shows "ce_id c0 = Some (cert_id r) \<and> \<not> new_cert r"
proof -
  have i: "ce_id c0 = Some (get_or [] (ce_id c0))"
    using t by (auto simp: truthy_def get_or_def split: option.splits)
  show ?thesis
    using r n t i
    by (auto simp: cert_flow_unfold [OF l] split: if_splits dest!: and_then_Returns)
qed

text \<open>
  Claim C4. Let the listing hold at least one debug certificate with the candidate name,
  \<open>c0\<close> being the first. The identifiers the creation branch deletes are exactly the
  non-empty identifiers of all same-named debug certificates. When \<open>c0\<close> has an
  identifier and an object identifier it is the one reused: the run calls neither create
  nor delete, and a returned record carries the identifier of \<open>c0\<close>. Otherwise a
  creation is triggered: when there is an identifier to delete, the first call after the
  listing is one delete call with all of them, and a run that returns has made exactly
  the calls delete, create, reapply and download, in this order.
\<close>

theorem duplicates_deleted_before_create:
  assumes l: "list_with_login CertListReq w = (Returns (Some resp_json), w1)"
    and n: "same_name_certs_of name (debug_certs_of resp_json) = c0 # others"
  shows "set (same_ids_of name (debug_certs_of resp_json)) =
           {i. i \<noteq> [] \<and> (\<exists>c \<in> set (c0 # others). ce_id c = Some i)}
       \<and> (truthy (ce_id c0) \<and> truthy (ce_certObjectId c0) \<longrightarrow>
            quiet w (snd (create_and_download_debug_cert name existing_cert_id w))
          \<and> (\<forall>r w'. create_and_download_debug_cert name existing_cert_id w = (Returns r, w')
                \<longrightarrow> ce_id c0 = Some (cert_id r) \<and> \<not> new_cert r))
       \<and> (\<not> (truthy (ce_id c0) \<and> truthy (ce_certObjectId c0)) \<longrightarrow>
            (same_ids_of name (debug_certs_of resp_json) \<noteq> [] \<longrightarrow>
               (\<exists>evs. trace (snd (create_and_download_debug_cert name existing_cert_id w)) =
                   trace w1 @ Http (CertDeleteReq (same_ids_of name (debug_certs_of resp_json))) # evs))
          \<and> (\<forall>r w'. create_and_download_debug_cert name existing_cert_id w = (Returns r, w')
                \<longrightarrow> (\<exists>csr oid u. trace w' =
                      trace w1
                      @ (if same_ids_of name (debug_certs_of resp_json) \<noteq> []
                         then [Http (CertDeleteReq (same_ids_of name (debug_certs_of resp_json)))]
                         else [])
                      @ [Http (CertAddReq name 1 csr), Http (ReapplyReq oid),
                         Download u (cert_path r)])))"
proof (intro conjI impI allI)
  show "set (same_ids_of name (debug_certs_of resp_json)) =
           {i. i \<noteq> [] \<and> (\<exists>c \<in> set (c0 # others). ce_id c = Some i)}"
    using same_ids_all [of name resp_json] n by simp
next
  assume t: "truthy (ce_id c0) \<and> truthy (ce_certObjectId c0)"
  show "quiet w (snd (create_and_download_debug_cert name existing_cert_id w))"
    by (rule reuse_quiet [OF l n t])
  fix r w'
  assume "create_and_download_debug_cert name existing_cert_id w = (Returns r, w')"
  from reuse_first_match [OF l n t this]
  show "ce_id c0 = Some (cert_id r)" and "\<not> new_cert r" by simp_all
next
  assume f: "\<not> (truthy (ce_id c0) \<and> truthy (ce_certObjectId c0))"
  have c: "create_and_download_debug_cert name existing_cert_id w =
      create_new_debug_cert name (name @ ''.cer'') (debug_certs_of resp_json) w1"
    using n f by (auto simp: cert_flow_unfold [OF l])
  {
    assume "same_ids_of name (debug_certs_of resp_json) \<noteq> []"
    from create_new_trace [OF this, of "name @ ''.cer''" w1]
    show "\<exists>evs. trace (snd (create_and_download_debug_cert name existing_cert_id w)) =
                   trace w1 @ Http (CertDeleteReq (same_ids_of name (debug_certs_of resp_json))) # evs"
      unfolding c .
  }
  fix r w'
  assume "create_and_download_debug_cert name existing_cert_id w = (Returns r, w')"
  then have "create_new_debug_cert name (name @ ''.cer'') (debug_certs_of resp_json) w1 = (Returns r, w')"
    unfolding c .
  from create_new_Returns [OF this]
  show "\<exists>csr oid u. trace w' =
                      trace w1
                      @ (if same_ids_of name (debug_certs_of resp_json) \<noteq> []
                         then [Http (CertDeleteReq (same_ids_of name (debug_certs_of resp_json)))]
                         else [])
                      @ [Http (CertAddReq name 1 csr), Http (ReapplyReq oid),
                         Download u (cert_path r)]"
    by (auto simp: after_delete_def)
qed

lemma world_dup_run:
  "fst (create_and_download_debug_cert ''x'' [] world_dup) =
     Returns \<lparr> new_cert = True, cert_id = ''N'', cert_name = ''x.cer'',
               cert_path = ''/home/u/.autoPublisher/config/x.cer'' \<rparr>
   \<and> trace (snd (create_and_download_debug_cert ''x'' [] world_dup)) =
     [Http CertListReq, Http (CertDeleteReq [''A'', ''B'']), Http (CertAddReq ''x'' 1 ''CSR''),
      Http (ReapplyReq ''ON''), Download ''https://files/x.cer'' ''/home/u/.autoPublisher/config/x.cer'']"
  by code_simp

theorem duplicates_deleted_before_create_witness:
  "same_ids_of ''x'' (debug_certs_of dup_listing) = [''A'', ''B'']
   \<and> \<not> (truthy (ce_id dup_a) \<and> truthy (ce_certObjectId dup_a))
   \<and> (\<exists>evs. trace (snd (create_and_download_debug_cert ''x'' [] world_dup)) =
          [Http CertListReq] @ Http (CertDeleteReq [''A'', ''B'']) # evs)
   \<and> trace (snd (create_and_download_debug_cert ''x'' [] world_dup)) =
       [Http CertListReq, Http (CertDeleteReq [''A'', ''B'']), Http (CertAddReq ''x'' 1 ''CSR''),
        Http (ReapplyReq ''ON''),
        Download ''https://files/x.cer'' ''/home/u/.autoPublisher/config/x.cer'']"
proof -
  let ?w1 = "world_dup\<lparr>trace := [Http CertListReq], remote := tl (remote world_dup)\<rparr>"
  have s: "next_status (remote world_dup) \<noteq> 401"
    by (simp add: world_dup_def next_status_def)
  have l: "list_with_login CertListReq world_dup = (Returns (Some dup_listing), ?w1)"
    by (simp add: list_with_login_other [OF s])
       (simp add: world_dup_def world0_def next_status_def next_body_def)
  have n: "same_name_certs_of ''x'' (debug_certs_of dup_listing) = dup_a # [dup_b]"
    by (simp add: same_name_certs_of_def debug_certs_of_def dup_listing_def doc0_def get_or_def
        dup_a_def dup_b_def)
  have i: "same_ids_of ''x'' (debug_certs_of dup_listing) = [''A'', ''B'']"
    by (simp add: same_ids_of_def debug_certs_of_def dup_listing_def doc0_def get_or_def
        dup_a_def dup_b_def truthy_def)
  have f: "\<not> (truthy (ce_id dup_a) \<and> truthy (ce_certObjectId dup_a))"
    by (simp add: dup_a_def truthy_def)
  show ?thesis
    using duplicates_deleted_before_create [OF l n, of "[]"] i f world_dup_run
    by simp
qed

lemma path_join_last: "b \<noteq> [] \<Longrightarrow> last (path_join a b) = last b"
  by (simp add: path_join_def)

lemma cert_path_not_config: "cert_file_path w name \<noteq> ECO_CONFIG_FILE w"
proof
  assume "cert_file_path w name = ECO_CONFIG_FILE w"
  then have "last (cert_file_path w name) = last (ECO_CONFIG_FILE w)" by simp
  then show False
    by (simp add: cert_file_path_def ECO_CONFIG_FILE_def path_join_last)
qed

lemma profile_path_not_config: "profile_file_path w pn pkg \<noteq> ECO_CONFIG_FILE w"
proof
  assume "profile_file_path w pn pkg = ECO_CONFIG_FILE w"
  then have "last (profile_file_path w pn pkg) = last (ECO_CONFIG_FILE w)" by simp
  then show False
    by (simp add: profile_file_path_def profile_file_def ECO_CONFIG_FILE_def path_join_last)
qed

lemma cert_flow_Returns:
  assumes "create_and_download_debug_cert name ex w = (Returns r, w')"
  shows "cert_path r = cert_file_path w name \<and> isfile w' (cert_path r)
       \<and> (\<not> isfile w (cert_file_path w name) \<longrightarrow>
            (\<exists>u. Download u (cert_path r) \<in> set (events_since w w')))"
proof -
  from assms obtain body w1 where l0: "list_with_login CertListReq w = (Returns body, w1)"
    by (auto simp: create_and_download_debug_cert_def Let_def dest!: and_then_Returns)
  with assms obtain j where l: "list_with_login CertListReq w = (Returns (Some j), w1)"
    by (cases body) (auto simp: create_and_download_debug_cert_def Let_def and_then_def)
  have w1: "w1 = snd (list_with_login CertListReq w)" using l by simp
  have cd: "CONFIG_DIR w1 = CONFIG_DIR w" unfolding w1 by simp
  have g: "grows w w1" unfolding w1 by simp
  then obtain e1 where e1: "trace w1 = trace w @ e1" by (auto simp: grows_def)
  let ?p = "cert_file_path w name"
  have stale: "isfile w1 ?p \<Longrightarrow> isfile w ?p"
    using list_with_login_isfile_rev [of CertListReq w ?p] cert_path_not_config [of w name] w1
    by auto
  consider (new) "create_new_debug_cert name (name @ ''.cer'') (debug_certs_of j) w1 = (Returns r, w')"
    | (cached) "isfile w1 ?p" "r = \<lparr> new_cert = False, cert_id = ex, cert_name = name @ ''.cer'',
          cert_path = ?p \<rparr>" "w' = w1"
    | (fresh) oid cid where
        "and_then (download_cert oid (name @ ''.cer''))
           (\<lambda>cert_file_path w2.
              (Returns \<lparr> new_cert = False, cert_id = cid, cert_name = basename cert_file_path,
                         cert_path = cert_file_path \<rparr>,
               update_config (cert_config ''false'' cid cert_file_path) w2)) w1 = (Returns r, w')"
    using assms
    by (auto simp: cert_flow_unfold [OF l] cd cert_file_path_def split: list.splits if_splits)
  then show ?thesis
  proof cases
    case new
    from create_new_Returns [OF new] obtain csr oid u where
      p: "cert_path r = ?p" and f: "isfile w' (cert_path r)"
      and t: "trace w' = trace (after_delete name (debug_certs_of j) w1)
               @ [Http (CertAddReq name 1 csr), Http (ReapplyReq oid), Download u (cert_path r)]"
      by (auto simp: cd cert_file_path_def)
    have "\<exists>evs. trace w' = trace w @ evs @ [Download u (cert_path r)]"
      using t e1 by (auto simp: after_delete_def)
    then have "Download u (cert_path r) \<in> set (events_since w w')" by auto
    then show ?thesis using p f by blast
  next
    case cached
    then show ?thesis using stale by auto
  next
    case fresh
    from and_then_Returns [OF fresh] obtain p w2 where
      d: "download_cert oid (name @ ''.cer'') w1 = (Returns p, w2)"
      and r: "cert_path r = p" and w': "w' = update_config (cert_config ''false'' cid p) w2"
      by auto
    from download_cert_Returns [OF d] obtain u where
      p: "p = ?p" and w2: "w2 = w1\<lparr>trace := trace w1 @ [Http (ReapplyReq oid), Download u p],
          remote := tl (tl (remote w1)), fs := (fs w1)(p := Blob)\<rparr>"
      by (auto simp: cd cert_file_path_def)
    have "isfile w2 p" unfolding w2 by (simp add: isfile_iff)
    then have f: "isfile w' p" unfolding w' by (rule isfile_update)
    have "trace w' = trace w @ (e1 @ [Http (ReapplyReq oid)]) @ [Download u p]"
      unfolding w' w2 using e1 by simp
    then have "Download u p \<in> set (events_since w w')" by auto
    then show ?thesis using r p f by blast
  qed
qed

section \<open>Stale caches and remote rejections\<close>

lemma register_device_Returns:
  assumes "register_device udid w = (Returns d, w2)"
  shows "w2 = w\<lparr>trace := trace w @ [Http (DeviceAddReq (''xiaobai-device-'' @ take 10 udid) udid),
                                      Http DeviceListReq],
                remote := tl (tl (remote w))\<rparr>"
  using assms
  by (auto simp: register_device_def http_request_eq Let_def split: option.splits if_splits)

lemma request_profile_Returns:
  assumes "request_profile pn pkg file found w = (Returns r, w')"
  shows "profile_path r = path_join (CONFIG_DIR w) file \<and> isfile w' (profile_path r)
       \<and> (\<exists>ds cs u. trace w' = trace w @ [Http (ProvisionAddReq pn ds cs pkg),
                                          Download u (profile_path r)])
       \<and> profile_name r = file \<and> CONFIG_DIR w' = CONFIG_DIR w"
proof -
  let ?rq = "ProvisionAddReq pn [get_or [] (de_id found)] [get_config_value w ''debug_cert_id''] pkg"
  let ?w1 = "w\<lparr>trace := trace w @ [Http ?rq], remote := tl (remote w)\<rparr>"
  from assms obtain url where
    a: "and_then (download_file url file)
          (\<lambda>downloaded_profile_path w2.
              (Returns \<lparr> profile_name = file, profile_path = downloaded_profile_path \<rparr>,
               update_config (profile_config file downloaded_profile_path) w2)) ?w1 = (Returns r, w')"
    by (auto simp: request_profile_def http_request_eq Let_def split: option.splits if_splits)
  from and_then_Returns [OF a] obtain p w2 where d: "download_file url file ?w1 = (Returns p, w2)"
    and r: "r = \<lparr> profile_name = file, profile_path = p \<rparr>"
    and w': "w' = update_config (profile_config file p) w2"
    by auto
  from download_file_Returns [OF d] have
    p: "p = path_join (CONFIG_DIR w) file"
    and w2: "w2 = ?w1\<lparr>trace := trace ?w1 @ [Download url p], remote := tl (remote ?w1),
                       fs := (fs ?w1)(p := Blob)\<rparr>"
    by auto
  have "isfile w2 p" unfolding w2 by (simp add: isfile_iff)
  then have f: "isfile w' p" unfolding w' by (rule isfile_update)
  have t: "trace w' = trace w @ [Http ?rq, Download url p]"
    unfolding w' w2 by simp
  have c: "CONFIG_DIR w' = CONFIG_DIR w"
    unfolding w' w2 by simp
  show ?thesis
    using r p f t c by auto
qed

lemma profile_flow_cached:
  assumes "isfile w (profile_file_path w pn pkg)"
  shows "create_and_download_debug_profile pn pkg w =
     (Returns \<lparr> profile_name = profile_file pn pkg, profile_path = profile_file_path w pn pkg \<rparr>,
      update_config (profile_config (profile_file pn pkg) (profile_file_path w pn pkg)) w)"
  using assms
  by (simp add: create_and_download_debug_profile_def profile_file_path_def profile_file_def Let_def)

lemma profile_flow_Returns:
  assumes "create_and_download_debug_profile pn pkg w = (Returns r, w')"
  shows "profile_path r = profile_file_path w pn pkg \<and> isfile w' (profile_path r)
       \<and> (\<not> isfile w (profile_file_path w pn pkg) \<longrightarrow>
            (\<exists>u. Download u (profile_path r) \<in> set (events_since w w')))
       \<and> profile_name r = profile_file pn pkg \<and> CONFIG_DIR w' = CONFIG_DIR w"
proof (cases "isfile w (profile_file_path w pn pkg)")
  case True
  then show ?thesis
    using assms by (auto simp: profile_flow_cached isfile_update)
next
  case False
  let ?file = "profile_file pn pkg"
  from assms False obtain udid where
    c: "and_then (list_with_login DeviceListReq)
          (\<lambda>resp_body w1.
              case resp_body of
                None \<Rightarrow> (Exits NotJson, w1)
              | Some resp_json \<Rightarrow>
                  and_then
                    (case find (\<lambda>device. de_udid device = Some udid)
                            (get_or [] (device_list resp_json)) of
                       None \<Rightarrow> register_device udid
                     | Some found \<Rightarrow> (\<lambda>w'. (Returns found, w')))
                    (request_profile pn pkg ?file) w1) w = (Returns r, w')"
    unfolding create_and_download_debug_profile_def profile_file_def [symmetric]
    by (auto simp: profile_file_path_def Let_def split: if_splits option.splits)
  from and_then_Returns [OF c] obtain body w1 where
    l: "list_with_login DeviceListReq w = (Returns body, w1)"
    and c1: "(case body of
                None \<Rightarrow> (Exits NotJson, w1)
              | Some resp_json \<Rightarrow>
                  and_then
                    (case find (\<lambda>device. de_udid device = Some udid)
                            (get_or [] (device_list resp_json)) of
                       None \<Rightarrow> register_device udid
                     | Some found \<Rightarrow> (\<lambda>w'. (Returns found, w')))
                    (request_profile pn pkg ?file) w1) = (Returns r, w')"
    by blast
  from c1 have "\<exists>j::jdoc. and_then
           (case find (\<lambda>device. de_udid device = Some udid) (get_or [] (device_list j)) of
              None \<Rightarrow> register_device udid
            | Some found \<Rightarrow> (\<lambda>w'. (Returns found, w')))
           (request_profile pn pkg ?file) w1 = (Returns r, w')"
    by (cases body) auto
  then obtain j :: jdoc where
    c2: "and_then
           (case find (\<lambda>device. de_udid device = Some udid) (get_or [] (device_list j)) of
              None \<Rightarrow> register_device udid
            | Some found \<Rightarrow> (\<lambda>w'. (Returns found, w')))
           (request_profile pn pkg ?file) w1 = (Returns r, w')"
    by blast
  from and_then_Returns [OF c2] obtain found w2 where
    f: "(case find (\<lambda>device. de_udid device = Some udid) (get_or [] (device_list j)) of
           None \<Rightarrow> register_device udid
         | Some found \<Rightarrow> (\<lambda>w'. (Returns found, w'))) w1 = (Returns found, w2)"
    and q: "request_profile pn pkg ?file found w2 = (Returns r, w')"
    by blast
  have w1: "w1 = snd (list_with_login DeviceListReq w)" using l by simp
  have cd1: "CONFIG_DIR w1 = CONFIG_DIR w" unfolding w1 by simp
  have g1: "grows w w1" unfolding w1 by simp
  have w2: "CONFIG_DIR w2 = CONFIG_DIR w1 \<and> grows w1 w2"
    using f by (auto split: option.splits dest!: register_device_Returns simp: grows_def)
  from g1 w2 obtain e where e: "trace w2 = trace w @ e" by (auto simp: grows_def)
  from request_profile_Returns [OF q] obtain ds cs u where
    p: "profile_path r = path_join (CONFIG_DIR w2) ?file" and i: "isfile w' (profile_path r)"
    and t: "trace w' = trace w2 @ [Http (ProvisionAddReq pn ds cs pkg), Download u (profile_path r)]"
    and nm: "profile_name r = ?file" and cd2: "CONFIG_DIR w' = CONFIG_DIR w2"
    by blast
  have "trace w' = trace w @ (e @ [Http (ProvisionAddReq pn ds cs pkg)]) @ [Download u (profile_path r)]"
    using t e by simp
  then have "Download u (profile_path r) \<in> set (events_since w w')" by auto
  then show ?thesis
    using p i w2 cd1 nm cd2 by (auto simp: profile_file_path_def)
qed

text \<open>
  Claim C8. Whenever the certificate flow or the profile flow returns a record, the file
  at the returned path exists, and the path is the one in the config directory that a
  config record of an earlier run names. When that file was absent at the start of the
  run (a stale record), the run has downloaded it: a download to the returned path is
  among the events of the run. The reuse branch and the profile shortcut are the only
  returns without a download, and both test the file first.
\<close>

theorem stale_record_is_refetched:
  "(create_and_download_debug_cert name existing_cert_id w = (Returns r, w')
      \<longrightarrow> cert_path r = cert_file_path w name \<and> isfile w' (cert_path r)
        \<and> (\<not> isfile w (cert_file_path w name) \<longrightarrow>
             (\<exists>u. Download u (cert_path r) \<in> set (events_since w w'))))
   \<and> (create_and_download_debug_profile prof_name package_name v = (Returns p, v')
      \<longrightarrow> profile_path p = profile_file_path v prof_name package_name \<and> isfile v' (profile_path p)
        \<and> (\<not> isfile v (profile_file_path v prof_name package_name) \<longrightarrow>
             (\<exists>u. Download u (profile_path p) \<in> set (events_since v v'))))"
  using cert_flow_Returns [of name existing_cert_id w r w']
    profile_flow_Returns [of prof_name package_name v p v']
  by blast

lemma world_stale_cert_run:
  "get_config_value world_stale_cert ''debug_cert_path'' = cert_file_path world_stale_cert CERT_NAME
   \<and> \<not> isfile world_stale_cert (cert_file_path world_stale_cert CERT_NAME)
   \<and> fst (create_and_download_debug_cert CERT_NAME ''C1'' world_stale_cert) =
       Returns \<lparr> new_cert = False, cert_id = ''C1'', cert_name = ''xiaobai-debug.cer'',
                 cert_path = ''/home/u/.autoPublisher/config/xiaobai-debug.cer'' \<rparr>"
  by code_simp

lemma world_stale_profile_run:
  "get_config_value world_stale_profile ''debug_profile_path'' =
       profile_file_path world_stale_profile PROFILE_NAME ''com.example.app''
   \<and> \<not> isfile world_stale_profile (profile_file_path world_stale_profile PROFILE_NAME ''com.example.app'')
   \<and> fst (create_and_download_debug_profile PROFILE_NAME ''com.example.app'' world_stale_profile) =
       Returns \<lparr> profile_name = ''xiaobai-debug_com_example_app.p7b'',
                 profile_path = ''/home/u/.autoPublisher/config/xiaobai-debug_com_example_app.p7b'' \<rparr>"
  by code_simp

theorem stale_record_is_refetched_witness:
  "\<not> isfile world_stale_cert (cert_file_path world_stale_cert CERT_NAME)
   \<and> isfile (snd (create_and_download_debug_cert CERT_NAME ''C1'' world_stale_cert))
        ''/home/u/.autoPublisher/config/xiaobai-debug.cer''
   \<and> (\<exists>u. Download u ''/home/u/.autoPublisher/config/xiaobai-debug.cer''
          \<in> set (events_since world_stale_cert
                   (snd (create_and_download_debug_cert CERT_NAME ''C1'' world_stale_cert))))
   \<and> \<not> isfile world_stale_profile (profile_file_path world_stale_profile PROFILE_NAME ''com.example.app'')
   \<and> isfile (snd (create_and_download_debug_profile PROFILE_NAME ''com.example.app'' world_stale_profile))
        ''/home/u/.autoPublisher/config/xiaobai-debug_com_example_app.p7b''
   \<and> (\<exists>u. Download u ''/home/u/.autoPublisher/config/xiaobai-debug_com_example_app.p7b''
          \<in> set (events_since world_stale_profile
                   (snd (create_and_download_debug_profile PROFILE_NAME ''com.example.app''
                           world_stale_profile))))"
proof -
  let ?c = "create_and_download_debug_cert CERT_NAME ''C1'' world_stale_cert"
  let ?p = "create_and_download_debug_profile PROFILE_NAME ''com.example.app'' world_stale_profile"
  let ?rc = "\<lparr> new_cert = False, cert_id = ''C1'', cert_name = ''xiaobai-debug.cer'',
                 cert_path = ''/home/u/.autoPublisher/config/xiaobai-debug.cer'' \<rparr>"
  let ?rp = "\<lparr> profile_name = ''xiaobai-debug_com_example_app.p7b'',
                 profile_path = ''/home/u/.autoPublisher/config/xiaobai-debug_com_example_app.p7b'' \<rparr>"
  have c: "?c = (Returns ?rc, snd ?c)"
    using world_stale_cert_run by (metis prod.collapse)
  have p: "?p = (Returns ?rp, snd ?p)"
    using world_stale_profile_run by (metis prod.collapse)
  have cp: "cert_file_path world_stale_cert CERT_NAME =
      ''/home/u/.autoPublisher/config/xiaobai-debug.cer''"
    by code_simp
  have pp: "profile_file_path world_stale_profile PROFILE_NAME ''com.example.app'' =
      ''/home/u/.autoPublisher/config/xiaobai-debug_com_example_app.p7b''"
    by code_simp
  have nc: "\<not> isfile world_stale_cert (cert_file_path world_stale_cert CERT_NAME)"
    using world_stale_cert_run by simp
  have np: "\<not> isfile world_stale_profile
      (profile_file_path world_stale_profile PROFILE_NAME ''com.example.app'')"
    using world_stale_profile_run by simp
  show ?thesis
    using stale_record_is_refetched [of CERT_NAME "''C1''" world_stale_cert ?rc "snd ?c"
        PROFILE_NAME "''com.example.app''" world_stale_profile ?rp "snd ?p"]
      c p nc np
    unfolding cp pp by simp
qed

lemma register_device_ignores_answer:
  "register_device udid (w\<lparr>remote := a # rest\<rparr>) = register_device udid (w\<lparr>remote := b # rest\<rparr>)"
  by (simp add: register_device_def http_request_eq Let_def)

lemma after_delete_ignores_answer:
  "same_ids_of name dcs \<noteq> [] \<Longrightarrow>
   after_delete name dcs (w\<lparr>remote := a # rest\<rparr>) =
     w\<lparr>trace := trace w @ [Http (CertDeleteReq (same_ids_of name dcs))], remote := rest\<rparr>"
  by (simp add: after_delete_def)

lemma create_new_via_after_delete:
  "create_new_debug_cert name cf dcs w =
     (let w1 = after_delete name dcs w;
          keystore_path = or_default (get_config_value w1 ''keystore_file'')
                            (path_join (STORE_DIR w1) ''xiaobai.p12'');
          storepass = or_default (get_config_value w1 ''storepass'') DEFAULT_STOREPASS;
          alias = or_default (get_config_value w1 ''keyalias'') DEFAULT_KEYALIAS
      in and_then (create_keystore keystore_path storepass alias ''xiaobai'')
           (\<lambda>_ w2.
              let csr_path = or_default (get_config_value w2 ''csr_file'')
                               (path_join (STORE_DIR w2) ''xiaobai.csr'')
              in and_then (create_csr keystore_path csr_path alias storepass)
                   (\<lambda>_. and_then (read_csr csr_path) (submit_csr name cf))
                   w2)
           w1)"
  by (simp add: create_new_debug_cert_def after_delete_def http_request_eq Let_def)

lemma create_new_ignores_delete_answer:
  assumes "same_ids_of name dcs \<noteq> []"
  shows "create_new_debug_cert name cf dcs (w\<lparr>remote := a # rest\<rparr>) =
         create_new_debug_cert name cf dcs (w\<lparr>remote := b # rest\<rparr>)"
  by (simp only: create_new_via_after_delete after_delete_ignores_answer [OF assms])

text \<open>
  Claim C5, amended. For the two creation calls whose answer the script reads,
  certificate creation and profile creation, an answer with status 200 and a nonzero
  \<^verbatim>\<open>ret.code\<close> ends the run with the server's \<^verbatim>\<open>ret.msg\<close>, and the create
  call is the only call made: nothing is retried. The answers of device registration and
  of certificate deletion are never looked at: the flows behave alike whatever these two
  calls are answered.
\<close>

theorem rejected_creation_is_fatal:
  "(next_status (remote w) = 200 \<and> next_body (remote w) = Some j \<and> get_or 0 (ret_code j) \<noteq> 0
     \<longrightarrow> submit_csr name cert_file csr w =
           (Exits (Rejected (get_or [] (ret_msg j))),
            w\<lparr>trace := trace w @ [Http (CertAddReq name 1 csr)], remote := tl (remote w)\<rparr>)
       \<and> (truthy (de_id found) \<and> get_config_value w ''debug_cert_id'' \<noteq> []
           \<longrightarrow> request_profile prof_name package_name file found w =
                 (Exits (Rejected (get_or [] (ret_msg j))),
                  w\<lparr>trace := trace w @
                       [Http (ProvisionAddReq prof_name [get_or [] (de_id found)]
                                [get_config_value w ''debug_cert_id''] package_name)],
                    remote := tl (remote w)\<rparr>)))
   \<and> register_device udid (w\<lparr>remote := a # rest\<rparr>) = register_device udid (w\<lparr>remote := b # rest\<rparr>)
   \<and> (same_ids_of name debug_certs \<noteq> []
       \<longrightarrow> create_new_debug_cert name cert_file debug_certs (w\<lparr>remote := a # rest\<rparr>) =
             create_new_debug_cert name cert_file debug_certs (w\<lparr>remote := b # rest\<rparr>))"
  by (auto simp: submit_csr_def request_profile_def http_request_eq Let_def
      register_device_ignores_answer create_new_ignores_delete_answer)

theorem rejected_creation_is_fatal_witness:
  "next_status (remote world_rejected) = 200
   \<and> fst (submit_csr ''x'' ''x.cer'' ''CSR'' world_rejected) = Exits (Rejected ''denied'')
   \<and> trace (snd (submit_csr ''x'' ''x.cer'' ''CSR'' world_rejected)) = [Http (CertAddReq ''x'' 1 ''CSR'')]
   \<and> fst (request_profile ''p'' ''com.example.app'' ''p.p7b'' device_d1 world_rejected)
       = Exits (Rejected ''denied'')
   \<and> trace (snd (request_profile ''p'' ''com.example.app'' ''p.p7b'' device_d1 world_rejected))
       = [Http (ProvisionAddReq ''p'' [''D1''] [''C1''] ''com.example.app'')]"
proof -
  have a: "next_status (remote world_rejected) = 200" "next_body (remote world_rejected) = Some rejection"
    by (simp_all add: world_rejected_def next_status_def next_body_def)
  have b: "get_or 0 (ret_code rejection) \<noteq> 0" "get_or [] (ret_msg rejection) = ''denied''"
    by (simp_all add: rejection_def get_or_def)
  have c: "truthy (de_id device_d1)" "get_or [] (de_id device_d1) = ''D1''"
    by (simp_all add: device_d1_def truthy_def get_or_def)
  have d: "get_config_value world_rejected ''debug_cert_id'' = ''C1''"
    by code_simp
  have t: "trace world_rejected = []"
    by (simp add: world_rejected_def world0_def)
  show ?thesis
    using rejected_creation_is_fatal [of world_rejected rejection "''x''" "''x.cer''" "''CSR''"
        device_d1 "''p''" "''com.example.app''" "''p.p7b''"] a b c d t
    by simp
qed

text \<open>
  Claim C5, as stated, fails for device registration and certificate deletion. A
  registration answered with status 200 and \<^verbatim>\<open>ret.code = 1\<close> is followed by the
  second device listing, and the device found there is returned; a deletion answered in
  the same way is followed by the creation of the certificate, which succeeds.
\<close>

theorem unchecked_rejection_counterexample:
  "next_status (remote world_register_rejected) = 200
   \<and> next_body (remote world_register_rejected) = Some rejection
   \<and> get_or 0 (ret_code rejection) \<noteq> 0
   \<and> fst (register_device ''UDID0001'' world_register_rejected) = Returns device_d1
   \<and> trace (snd (register_device ''UDID0001'' world_register_rejected)) =
       [Http (DeviceAddReq ''xiaobai-device-UDID0001'' ''UDID0001''), Http DeviceListReq]
   \<and> remote world_dup ! 1 = Reply 200 (Some rejection)
   \<and> fst (create_and_download_debug_cert ''x'' [] world_dup) =
       Returns \<lparr> new_cert = True, cert_id = ''N'', cert_name = ''x.cer'',
                 cert_path = ''/home/u/.autoPublisher/config/x.cer'' \<rparr>
   \<and> trace (snd (create_and_download_debug_cert ''x'' [] world_dup)) =
       [Http CertListReq, Http (CertDeleteReq [''A'', ''B'']), Http (CertAddReq ''x'' 1 ''CSR''),
        Http (ReapplyReq ''ON''),
        Download ''https://files/x.cer'' ''/home/u/.autoPublisher/config/x.cer'']"
  by code_simp

section \<open>Idempotence of a second run\<close>

lemma cfg_writable_simps [simp]:
  "cfg_writable (w\<lparr>trace := t\<rparr>) = cfg_writable w"
  by simp

lemma login_eco_writable [simp]: "cfg_writable (snd (login_eco w)) = cfg_writable w"
  by (simp add: login_eco_def store_session_def Let_def split: option.splits prod.splits)

lemma read_config_simps [simp]:
  "read_eco_config (w\<lparr>trace := t\<rparr>) = read_eco_config w"
  "read_eco_config (w\<lparr>remote := r\<rparr>) = read_eco_config w"
  "read_eco_config (w\<lparr>logins := l\<rparr>) = read_eco_config w"
  by (simp_all add: read_eco_config_def)

lemma login_eco_keeps_cert_id:
  "read_eco_config (snd (login_eco w)) ''debug_cert_id'' = read_eco_config w ''debug_cert_id''"
proof (cases "cfg_writable w")
  case True
  then show ?thesis
    by (simp add: login_eco_def store_session_def Let_def read_after_update
        split: option.splits prod.splits)
next
  case False
  then show ?thesis
    by (simp add: login_eco_def store_session_def Let_def update_config_def write_eco_config_def
        split: option.splits prod.splits)
qed

lemma list_with_login_keeps_cert_id:
  "read_eco_config (snd (list_with_login rq w)) ''debug_cert_id'' = read_eco_config w ''debug_cert_id''"
  using list_with_login_world [of rq w]
    login_eco_keeps_cert_id [of "w\<lparr>trace := trace w @ [Http rq], remote := tl (remote w)\<rparr>"]
  by auto

lemma list_with_login_writable [simp]:
  "cfg_writable (snd (list_with_login rq w)) = cfg_writable w"
  using list_with_login_world [of rq w]
    login_eco_writable [of "w\<lparr>trace := trace w @ [Http rq], remote := tl (remote w)\<rparr>"]
  by auto

lemma truthy_get_or: "truthy v \<Longrightarrow> v = Some (get_or [] v) \<and> get_or [] v \<noteq> []"
  by (auto simp: truthy_def get_or_def split: option.splits)

lemma truthy_nonempty: "truthy v \<Longrightarrow> (get_or [] v = []) = False"
  by (auto simp: truthy_def get_or_def split: option.splits)

lemma cert_config_id: "cert_config n cid p ''debug_cert_id'' = Some cid"
  by (simp add: cert_config_def)

lemma download_cert_env:
  assumes "download_cert oid f w = (Returns p, w2)"
  shows "cfg_writable w2 = cfg_writable w \<and> CONFIG_DIR w2 = CONFIG_DIR w"
  using download_cert_Returns [OF assms] by auto

lemma submit_csr_config:
  assumes "submit_csr name cf csr w = (Returns r, w')" and "cfg_writable w"
  shows "read_eco_config w' ''debug_cert_id'' = Some (cert_id r) \<and> cert_id r \<noteq> []
       \<and> CONFIG_DIR w' = CONFIG_DIR w \<and> cfg_writable w'"
proof -
  let ?w1 = "w\<lparr>trace := trace w @ [Http (CertAddReq name 1 csr)], remote := tl (remote w)\<rparr>"
  from assms(1) obtain oid cid where
    a: "and_then (download_cert oid cf)
          (\<lambda>cert_file_path w2.
              (Returns \<lparr> new_cert = True, cert_id = cid, cert_name = basename cert_file_path,
                         cert_path = cert_file_path \<rparr>,
               update_config (cert_config ''true'' cid cert_file_path) w2)) ?w1 = (Returns r, w')"
    and c: "cid \<noteq> []"
    by (auto simp: submit_csr_def http_request_eq Let_def truthy_nonempty
        split: option.splits if_splits)
  from and_then_Returns [OF a] obtain p w2 where d: "download_cert oid cf ?w1 = (Returns p, w2)"
    and r: "r = \<lparr> new_cert = True, cert_id = cid, cert_name = basename p, cert_path = p \<rparr>"
    and w': "w' = update_config (cert_config ''true'' cid p) w2"
    by auto
  have e: "cfg_writable w2" "CONFIG_DIR w2 = CONFIG_DIR w"
    using download_cert_env [OF d] assms(2) by simp_all
  show ?thesis
    using r c e unfolding w' by (simp add: read_after_update cert_config_id)
qed

lemma create_new_config:
  assumes "create_new_debug_cert name cf dcs w = (Returns r, w')" and "cfg_writable w"
  shows "read_eco_config w' ''debug_cert_id'' = Some (cert_id r) \<and> cert_id r \<noteq> []
       \<and> CONFIG_DIR w' = CONFIG_DIR w \<and> cfg_writable w'"
proof -
  let ?wd = "after_delete name dcs w"
  let ?kp = "or_default (get_config_value ?wd ''keystore_file'')
               (path_join (STORE_DIR ?wd) ''xiaobai.p12'')"
  let ?sp = "or_default (get_config_value ?wd ''storepass'') DEFAULT_STOREPASS"
  let ?al = "or_default (get_config_value ?wd ''keyalias'') DEFAULT_KEYALIAS"
  let ?cpf = "\<lambda>w1. or_default (get_config_value w1 ''csr_file'')
                      (path_join (STORE_DIR w1) ''xiaobai.csr'')"
  have wd: "cfg_writable ?wd" "CONFIG_DIR ?wd = CONFIG_DIR w"
    using assms(2) by (simp_all add: after_delete_def)
  have c: "and_then (create_keystore ?kp ?sp ?al ''xiaobai'')
          (\<lambda>_ w1. and_then (create_csr ?kp (?cpf w1) ?al ?sp)
                    (\<lambda>_. and_then (read_csr (?cpf w1)) (submit_csr name cf)) w1) ?wd = (Returns r, w')"
    using assms(1) unfolding create_new_via_after_delete Let_def by simp
  from and_then_Returns [OF c] obtain x1 w1 where k: "create_keystore ?kp ?sp ?al ''xiaobai'' ?wd = (Returns x1, w1)"
    and c2: "and_then (create_csr ?kp (?cpf w1) ?al ?sp)
               (\<lambda>_. and_then (read_csr (?cpf w1)) (submit_csr name cf)) w1 = (Returns r, w')"
    by blast
  from and_then_Returns [OF c2] obtain x2 w2 where cs: "create_csr ?kp (?cpf w1) ?al ?sp w1 = (Returns x2, w2)"
    and c3: "and_then (read_csr (?cpf w1)) (submit_csr name cf) w2 = (Returns r, w')"
    by blast
  from and_then_Returns [OF c3] obtain csr w3 where rd: "read_csr (?cpf w1) w2 = (Returns csr, w3)"
    and sb: "submit_csr name cf csr w3 = (Returns r, w')"
    by blast
  have k1: "cfg_writable w1 = cfg_writable ?wd \<and> CONFIG_DIR w1 = CONFIG_DIR ?wd"
    using k by (auto simp: create_keystore_def split: if_splits)
  have k2: "cfg_writable w2 = cfg_writable w1 \<and> CONFIG_DIR w2 = CONFIG_DIR w1"
    using cs by (auto simp: create_csr_def split: if_splits)
  have k3: "w3 = w2" using read_csr_Returns [OF rd] by simp
  have e: "cfg_writable w3" "CONFIG_DIR w3 = CONFIG_DIR w"
    using k1 k2 k3 wd by simp_all
  show ?thesis
    using submit_csr_config [OF sb e(1)] e(2) by simp
qed

lemma cert_flow_config:
  assumes r: "create_and_download_debug_cert name ex w = (Returns r, w')"
    and wr: "cfg_writable w"
    and ex: "get_config_value w ''debug_cert_id'' = ex"
  shows "get_config_value w' ''debug_cert_id'' = cert_id r \<and> cert_id r \<noteq> []
       \<and> CONFIG_DIR w' = CONFIG_DIR w \<and> cfg_writable w'"
proof -
  from r obtain body w1 where l0: "list_with_login CertListReq w = (Returns body, w1)"
    by (auto simp: create_and_download_debug_cert_def Let_def dest!: and_then_Returns)
  with r obtain j where l: "list_with_login CertListReq w = (Returns (Some j), w1)"
    by (cases body) (auto simp: create_and_download_debug_cert_def Let_def and_then_def)
  have w1: "w1 = snd (list_with_login CertListReq w)" using l by simp
  have cd: "CONFIG_DIR w1 = CONFIG_DIR w" unfolding w1 by simp
  have wr1: "cfg_writable w1" unfolding w1 using wr by simp
  have ex1: "get_config_value w1 ''debug_cert_id'' = ex"
    unfolding w1 using ex by (simp add: get_config_value_def list_with_login_keeps_cert_id)
  have new: "create_new_debug_cert name (name @ ''.cer'') (debug_certs_of j) w1 = (Returns r, w')
      \<Longrightarrow> ?thesis"
    using create_new_config [OF _ wr1] cd by (simp add: get_config_value_def get_or_def)
  show ?thesis
  proof (cases "same_name_certs_of name (debug_certs_of j)")
    case Nil
    then show ?thesis using r new by (simp add: cert_flow_unfold [OF l])
  next
    case (Cons c0 others)
    show ?thesis
    proof (cases "truthy (ce_id c0) \<and> truthy (ce_certObjectId c0)")
      case False
      then show ?thesis using r new Cons by (auto simp: cert_flow_unfold [OF l])
    next
      case True
      let ?cid = "get_or [] (ce_id c0)"
      have ne: "?cid \<noteq> []" using True by (simp add: truthy_nonempty)
      show ?thesis
      proof (cases "isfile w1 (path_join (CONFIG_DIR w1) (name @ ''.cer'')) \<and> ?cid = ex")
        case cached: True
        then have "cert_id r = ex" "w' = w1"
          using r Cons True by (auto simp: cert_flow_unfold [OF l])
        then show ?thesis using ex1 cd wr1 ne cached by simp
      next
        case fresh: False
        then have a: "and_then (download_cert (get_or [] (ce_certObjectId c0)) (name @ ''.cer''))
           (\<lambda>cert_file_path w2.
              (Returns \<lparr> new_cert = False, cert_id = ?cid, cert_name = basename cert_file_path,
                         cert_path = cert_file_path \<rparr>,
               update_config (cert_config ''false'' ?cid cert_file_path) w2)) w1 = (Returns r, w')"
          using r Cons True by (auto simp: cert_flow_unfold [OF l])
        from and_then_Returns [OF a] obtain p w2 where
          d: "download_cert (get_or [] (ce_certObjectId c0)) (name @ ''.cer'') w1 = (Returns p, w2)"
          and r': "cert_id r = ?cid" and w': "w' = update_config (cert_config ''false'' ?cid p) w2"
          by auto
        have e: "cfg_writable w2" "CONFIG_DIR w2 = CONFIG_DIR w"
          using download_cert_env [OF d] wr1 cd by simp_all
        show ?thesis
          using r' ne e unfolding w'
          by (simp add: get_config_value_def get_or_def read_after_update cert_config_id)
      qed
    qed
  qed
qed

lemma cert_cached_run:
  assumes l: "list_with_login CertListReq w = (Returns (Some j), w1)"
    and n: "same_name_certs_of name (debug_certs_of j) = c0 # others"
    and i: "ce_id c0 = Some ex" "ex \<noteq> []" "truthy (ce_certObjectId c0)"
    and f: "isfile w (cert_file_path w name)"
  shows "create_and_download_debug_cert name ex w =
          (Returns \<lparr> new_cert = False, cert_id = ex, cert_name = name @ ''.cer'',
                     cert_path = cert_file_path w name \<rparr>, w1)
       \<and> \<not> list_ex is_create (events_since w w1)
       \<and> \<not> list_ex is_delete (events_since w w1)"
proof -
  have w1: "w1 = snd (list_with_login CertListReq w)" using l by simp
  have cd: "CONFIG_DIR w1 = CONFIG_DIR w" unfolding w1 by simp
  have f0: "isfile w (path_join (CONFIG_DIR w) (name @ ''.cer''))"
    using f by (simp add: cert_file_path_def)
  have f1: "isfile w1 (path_join (CONFIG_DIR w) (name @ ''.cer''))"
    using list_with_login_isfile [OF f0, of CertListReq] l by simp
  have t: "truthy (ce_id c0)" using i by (simp add: truthy_def)
  have q: "quiet w w1" unfolding w1 by (rule quiet_list_with_login) simp
  show ?thesis
    using n i t f1 cd quiet_since [OF q]
    by (simp add: cert_flow_unfold [OF l] get_or_def cert_file_path_def)
qed

lemma cert_second_run:
  assumes r1: "process_debug_cert w = (Returns r, w')" and wr: "cfg_writable w"
    and l2: "list_with_login CertListReq w' = (Returns (Some j2), w2)"
    and n2: "same_name_certs_of CERT_NAME (debug_certs_of j2) = c0 # others"
    and i2: "ce_id c0 = Some (cert_id r)" and o2: "truthy (ce_certObjectId c0)"
  shows "process_debug_cert w' =
          (Returns \<lparr> new_cert = False, cert_id = cert_id r, cert_name = CERT_NAME @ ''.cer'',
                     cert_path = cert_path r \<rparr>, w2)
       \<and> \<not> list_ex is_create (events_since w' w2)
       \<and> \<not> list_ex is_delete (events_since w' w2)"
proof -
  have run: "create_and_download_debug_cert CERT_NAME (get_config_value w ''debug_cert_id'') w
      = (Returns r, w')"
    using r1 by (simp add: process_debug_cert_def)
  from cert_flow_Returns [OF run] have
    p: "cert_path r = cert_file_path w CERT_NAME" and f: "isfile w' (cert_path r)" by blast+
  from cert_flow_config [OF run wr refl] have
    g: "get_config_value w' ''debug_cert_id'' = cert_id r" and ne: "cert_id r \<noteq> []"
    and cd: "CONFIG_DIR w' = CONFIG_DIR w" by blast+
  have p': "cert_file_path w' CERT_NAME = cert_path r"
    using p cd by (simp add: cert_file_path_def)
  have f': "isfile w' (cert_file_path w' CERT_NAME)" using f p' by simp
  show ?thesis
    using cert_cached_run [OF l2 n2 i2 ne o2 f'] g p'
    by (simp add: process_debug_cert_def)
qed

lemma profile_second_run:
  assumes "create_and_download_debug_profile pn pkg w = (Returns p, w')"
  shows "fst (create_and_download_debug_profile pn pkg w') = Returns p
       \<and> trace (snd (create_and_download_debug_profile pn pkg w')) = trace w'"
proof -
  from profile_flow_Returns [OF assms] have
    a: "profile_path p = profile_file_path w pn pkg" and f: "isfile w' (profile_path p)"
    and n: "profile_name p = profile_file pn pkg" and cd: "CONFIG_DIR w' = CONFIG_DIR w"
    by blast+
  have e: "profile_file_path w' pn pkg = profile_path p"
    using a cd by (simp add: profile_file_path_def)
  have f': "isfile w' (profile_file_path w' pn pkg)" using f e by simp
  show ?thesis
    using n e by (simp add: profile_flow_cached [OF f'])
qed

text \<open>
  Claim C1. One run: when the listing step returns a document whose first debug
  certificate of the given name carries the cached identifier (and an object identifier),
  and the local \<^verbatim>\<open>.cer\<close> file exists, the certificate flow returns the cached
  record and the run has called neither a create nor the delete endpoint; when the local
  \<^verbatim>\<open>.p7b\<close> file exists the profile flow returns the cached record and records no
  call at all. Two runs: after a certificate run that returned (with a config that can be
  written), a second run whose listing shows the certificate of the first under its
  identifier returns the same identifier and path from the cache, with no create and no
  delete call; after a profile run that returned, a second run returns the same record
  and records no call.
\<close>

theorem second_run_creates_nothing:
  "(list_with_login CertListReq w = (Returns (Some resp_json), w1)
      \<and> same_name_certs_of name (debug_certs_of resp_json) = c0 # others
      \<and> ce_id c0 = Some existing_cert_id \<and> existing_cert_id \<noteq> []
      \<and> truthy (ce_certObjectId c0)
      \<and> isfile w (cert_file_path w name)
    \<longrightarrow> create_and_download_debug_cert name existing_cert_id w =
          (Returns \<lparr> new_cert = False, cert_id = existing_cert_id, cert_name = name @ ''.cer'',
                     cert_path = cert_file_path w name \<rparr>, w1)
        \<and> \<not> list_ex is_create (events_since w w1)
        \<and> \<not> list_ex is_delete (events_since w w1))
   \<and> (isfile w (profile_file_path w prof_name package_name)
    \<longrightarrow> fst (create_and_download_debug_profile prof_name package_name w) =
          Returns \<lparr> profile_name = profile_file prof_name package_name,
                    profile_path = profile_file_path w prof_name package_name \<rparr>
        \<and> trace (snd (create_and_download_debug_profile prof_name package_name w)) = trace w)
   \<and> (process_debug_cert v = (Returns r, v') \<and> cfg_writable v
      \<and> list_with_login CertListReq v' = (Returns (Some listing2), v2)
      \<and> same_name_certs_of CERT_NAME (debug_certs_of listing2) = d0 # rest
      \<and> ce_id d0 = Some (cert_id r) \<and> truthy (ce_certObjectId d0)
    \<longrightarrow> process_debug_cert v' =
          (Returns \<lparr> new_cert = False, cert_id = cert_id r, cert_name = CERT_NAME @ ''.cer'',
                     cert_path = cert_path r \<rparr>, v2)
        \<and> \<not> list_ex is_create (events_since v' v2)
        \<and> \<not> list_ex is_delete (events_since v' v2))
   \<and> (create_and_download_debug_profile prof_name package_name u = (Returns p, u')
    \<longrightarrow> fst (create_and_download_debug_profile prof_name package_name u') = Returns p
        \<and> trace (snd (create_and_download_debug_profile prof_name package_name u')) = trace u')"
proof (intro conjI impI)
  assume "list_with_login CertListReq w = (Returns (Some resp_json), w1)
      \<and> same_name_certs_of name (debug_certs_of resp_json) = c0 # others
      \<and> ce_id c0 = Some existing_cert_id \<and> existing_cert_id \<noteq> []
      \<and> truthy (ce_certObjectId c0)
      \<and> isfile w (cert_file_path w name)"
  then have a: "create_and_download_debug_cert name existing_cert_id w =
          (Returns \<lparr> new_cert = False, cert_id = existing_cert_id, cert_name = name @ ''.cer'',
                     cert_path = cert_file_path w name \<rparr>, w1)
        \<and> \<not> list_ex is_create (events_since w w1)
        \<and> \<not> list_ex is_delete (events_since w w1)"
    using cert_cached_run by blast
  from a show "create_and_download_debug_cert name existing_cert_id w =
          (Returns \<lparr> new_cert = False, cert_id = existing_cert_id, cert_name = name @ ''.cer'',
                     cert_path = cert_file_path w name \<rparr>, w1)" by simp
  from a show "\<not> list_ex is_create (events_since w w1)" by simp
  from a show "\<not> list_ex is_delete (events_since w w1)" by simp
next
  assume b: "isfile w (profile_file_path w prof_name package_name)"
  show "fst (create_and_download_debug_profile prof_name package_name w) =
          Returns \<lparr> profile_name = profile_file prof_name package_name,
                    profile_path = profile_file_path w prof_name package_name \<rparr>"
    by (simp add: profile_flow_cached [OF b])
  show "trace (snd (create_and_download_debug_profile prof_name package_name w)) = trace w"
    by (simp add: profile_flow_cached [OF b])
next
  assume "process_debug_cert v = (Returns r, v') \<and> cfg_writable v
      \<and> list_with_login CertListReq v' = (Returns (Some listing2), v2)
      \<and> same_name_certs_of CERT_NAME (debug_certs_of listing2) = d0 # rest
      \<and> ce_id d0 = Some (cert_id r) \<and> truthy (ce_certObjectId d0)"
  then have c: "process_debug_cert v' =
          (Returns \<lparr> new_cert = False, cert_id = cert_id r, cert_name = CERT_NAME @ ''.cer'',
                     cert_path = cert_path r \<rparr>, v2)
        \<and> \<not> list_ex is_create (events_since v' v2)
        \<and> \<not> list_ex is_delete (events_since v' v2)"
    using cert_second_run by blast
  from c show "process_debug_cert v' =
          (Returns \<lparr> new_cert = False, cert_id = cert_id r, cert_name = CERT_NAME @ ''.cer'',
                     cert_path = cert_path r \<rparr>, v2)" by simp
  from c show "\<not> list_ex is_create (events_since v' v2)" by simp
  from c show "\<not> list_ex is_delete (events_since v' v2)" by simp
next
  assume d: "create_and_download_debug_profile prof_name package_name u = (Returns p, u')"
  from profile_second_run [OF d]
  show "fst (create_and_download_debug_profile prof_name package_name u') = Returns p"
    and "trace (snd (create_and_download_debug_profile prof_name package_name u')) = trace u'"
    by simp_all
qed

lemma world_two_runs_first:
  "fst (process_debug_cert world_two_runs) =
     Returns \<lparr> new_cert = False, cert_id = ''C1'', cert_name = ''xiaobai-debug.cer'',
               cert_path = ''/home/u/.autoPublisher/config/xiaobai-debug.cer'' \<rparr>
   \<and> cfg_writable world_two_runs
   \<and> fst (list_with_login CertListReq (snd (process_debug_cert world_two_runs)))
       = Returns (Some cert_listing)"
  by code_simp

theorem second_run_creates_nothing_witness:
  "fst (process_debug_cert world_two_runs) =
     Returns \<lparr> new_cert = False, cert_id = ''C1'', cert_name = ''xiaobai-debug.cer'',
               cert_path = ''/home/u/.autoPublisher/config/xiaobai-debug.cer'' \<rparr>
   \<and> fst (process_debug_cert (snd (process_debug_cert world_two_runs))) =
     Returns \<lparr> new_cert = False, cert_id = ''C1'', cert_name = ''xiaobai-debug.cer'',
               cert_path = ''/home/u/.autoPublisher/config/xiaobai-debug.cer'' \<rparr>
   \<and> \<not> list_ex is_create
        (events_since (snd (process_debug_cert world_two_runs))
           (snd (process_debug_cert (snd (process_debug_cert world_two_runs)))))
   \<and> fst (create_and_download_debug_profile PROFILE_NAME ''com.example.app''
            (snd (create_and_download_debug_profile PROFILE_NAME ''com.example.app'' world_stale_profile)))
       = Returns \<lparr> profile_name = ''xiaobai-debug_com_example_app.p7b'',
                   profile_path = ''/home/u/.autoPublisher/config/xiaobai-debug_com_example_app.p7b'' \<rparr>
   \<and> fst (create_and_download_debug_profile PROFILE_NAME ''com.example.app'' world_cached) =
       Returns \<lparr> profile_name = ''xiaobai-debug_com_example_app.p7b'',
                 profile_path = ''/home/u/.autoPublisher/config/xiaobai-debug_com_example_app.p7b'' \<rparr>
   \<and> trace (snd (create_and_download_debug_profile PROFILE_NAME ''com.example.app'' world_cached)) = []"
proof -
  let ?r = "\<lparr> new_cert = False, cert_id = ''C1'', cert_name = ''xiaobai-debug.cer'',
               cert_path = ''/home/u/.autoPublisher/config/xiaobai-debug.cer'' \<rparr>"
  let ?rp = "\<lparr> profile_name = ''xiaobai-debug_com_example_app.p7b'',
                 profile_path = ''/home/u/.autoPublisher/config/xiaobai-debug_com_example_app.p7b'' \<rparr>"
  let ?v' = "snd (process_debug_cert world_two_runs)"
  let ?v2 = "snd (list_with_login CertListReq ?v')"
  let ?u' = "snd (create_and_download_debug_profile PROFILE_NAME ''com.example.app'' world_stale_profile)"
  have a: "process_debug_cert world_two_runs = (Returns ?r, ?v')"
    using world_two_runs_first by (metis prod.collapse)
  have w: "cfg_writable world_two_runs" using world_two_runs_first by simp
  have l: "list_with_login CertListReq ?v' = (Returns (Some cert_listing), ?v2)"
    using world_two_runs_first by (metis prod.collapse)
  have n: "same_name_certs_of CERT_NAME (debug_certs_of cert_listing) = cert_x1 # [cert_x2]"
    by (simp add: same_name_certs_of_def debug_certs_of_def cert_listing_def doc0_def get_or_def
        cert_x1_def cert_x2_def CERT_NAME_def)
  have i: "ce_id cert_x1 = Some (cert_id ?r)" "truthy (ce_certObjectId cert_x1)"
    by (simp_all add: cert_x1_def truthy_def)
  have p: "create_and_download_debug_profile PROFILE_NAME ''com.example.app'' world_stale_profile
      = (Returns ?rp, ?u')"
    using world_stale_profile_run by (metis prod.collapse)
  have pp: "profile_file_path world_cached PROFILE_NAME ''com.example.app'' =
      ''/home/u/.autoPublisher/config/xiaobai-debug_com_example_app.p7b''"
    by (simp add: profile_file_path_def profile_file_def CONFIG_DIR_world_cached path_join_def
        PROFILE_NAME_def)
  have f2: "isfile world_cached (profile_file_path world_cached PROFILE_NAME ''com.example.app'')"
    unfolding pp by (simp add: isfile_iff world_cached_def)
  have pf: "profile_file PROFILE_NAME ''com.example.app'' = ''xiaobai-debug_com_example_app.p7b''"
    by (simp add: profile_file_def PROFILE_NAME_def)
  have t0: "trace world_cached = []" by (simp add: world_cached_def world0_def)
  have c: "CERT_NAME @ ''.cer'' = ''xiaobai-debug.cer''" by (simp add: CERT_NAME_def)
  note th = second_run_creates_nothing [where w = world_cached and prof_name = PROFILE_NAME
      and package_name = "''com.example.app''" and v = world_two_runs and r = ?r and v' = ?v'
      and ?listing2.0 = cert_listing and ?v2.0 = ?v2 and ?d0.0 = cert_x1 and rest = "[cert_x2]"
      and u = world_stale_profile and p = ?rp and u' = ?u']
  have second: "process_debug_cert ?v' = (Returns ?r, ?v2)
      \<and> \<not> list_ex is_create (events_since ?v' ?v2)"
    using th a w l n i c by simp
  have prof2: "fst (create_and_download_debug_profile PROFILE_NAME ''com.example.app'' ?u') = Returns ?rp"
    using th p by blast
  have prof1: "fst (create_and_download_debug_profile PROFILE_NAME ''com.example.app'' world_cached) =
      Returns ?rp
      \<and> trace (snd (create_and_download_debug_profile PROFILE_NAME ''com.example.app'' world_cached)) = []"
    using th f2 t0 unfolding pp pf by simp
  have first: "fst (process_debug_cert world_two_runs) = Returns ?r"
    using world_two_runs_first by simp
  have snd2: "snd (process_debug_cert ?v') = ?v2" "fst (process_debug_cert ?v') = Returns ?r"
    using second by simp_all
  show ?thesis
    unfolding snd2 using first second prof2 prof1 by blast
qed

end
